theory Spec2Isabelle
  imports Complex_Main
begin

section \<open>Common vocabulary\<close>

text \<open>
  The scripts talk to PostgreSQL through psycopg2. An exception raised by the driver is
  a \<open>psycopg2.Error\<close>; the only subclass the code ever tests for is
  \<open>SerializationFailure\<close>. Every other Python exception (\<open>TypeError\<close>,
  \<open>ValueError\<close>, ...) is outside that hierarchy and is not caught by an
  \<open>except psycopg2.Error\<close> clause.
\<close>

datatype store_error = SerializationFailure | OtherStoreError

datatype py_error = StoreError store_error | TypeError | ValueError | ZeroDivisionError

section \<open>The index benchmark script (1.1.py): \<open>execute_query\<close>\<close>

text \<open>
  What \<open>execute_query\<close> does to its connection is recorded as a trace of driver
  calls. The store's answers are inputs: \<open>cursor_reply\<close> is the driver error
  \<open>conn.cursor()\<close> raises, if any (the call stands before the \<open>try\<close>);
  \<open>reply\<close> is the answer to \<open>cur.execute\<close> (followed by \<open>cur.fetchall\<close>
  when \<open>analyze\<close> is set), either a driver error or the first column of the rows of
  the plan; \<open>rollback_reply\<close> is the driver error \<open>conn.rollback()\<close> raises, if
  any, when the handler calls it. The two readings of \<open>time.time()\<close> are inputs as
  well, taken as rationals. \<open>cur.close()\<close> in the \<open>finally\<close> block runs on every
  path that has opened the cursor.
\<close>

datatype event = CursorOpened | Executed string | RolledBack | CursorClosed

fun join_lines :: "string list \<Rightarrow> string" where
  "join_lines [] = []"
| "join_lines [l] = l"
| "join_lines (l # ls) = l @ [CHR 0x0A] @ join_lines ls"

definition is_digit :: "char \<Rightarrow> bool" where
  "is_digit c = (c \<in> set ''0123456789'')"

definition is_digit_or_dot :: "char \<Rightarrow> bool" where
  "is_digit_or_dot c = (is_digit c \<or> c = CHR ''.'')"

text \<open>
  \<open>re.search(r"Execution Time: ([\d\.]+) ms", s)\<close>: the leftmost position where the
  literal prefix, a non-empty run of digits and dots, and the literal \<open>" ms"\<close>
  follow each other. The run is greedy; a shorter run can never be followed by a blank,
  so only the maximal run has to be tried. The result is group 1.
\<close>

definition match_here :: "string \<Rightarrow> string option" where
  "match_here s =
     (let p = ''Execution Time: '' in
      if take (length p) s = p then
        (let rest = drop (length p) s;
             run = takeWhile is_digit_or_dot rest;
             after = dropWhile is_digit_or_dot rest
         in if run \<noteq> [] \<and> take 3 after = '' ms'' then Some run else None)
      else None)"

fun search_execution_time :: "string \<Rightarrow> string option" where
  "search_execution_time [] = None"
| "search_execution_time (c # cs) =
     (case match_here (c # cs) of
        Some g \<Rightarrow> Some g
      | None \<Rightarrow> search_execution_time cs)"

text \<open>
  \<open>float(g)\<close> on a string of digits and dots: a value when there is at most one dot
  and at least one digit, \<open>ValueError\<close> otherwise.
\<close>

definition digits_value :: "string \<Rightarrow> nat" where
  "digits_value ds = foldl (\<lambda>acc c. 10 * acc + (of_char c - 48)) 0 ds"

definition py_float :: "string \<Rightarrow> rat option" where
  "py_float g =
     (let a = takeWhile is_digit g; rest = dropWhile is_digit g in
      case rest of
        [] \<Rightarrow> if a = [] then None else Some (of_nat (digits_value a))
      | c # b \<Rightarrow>
          if c = CHR ''.'' \<and> list_all is_digit b \<and> (a \<noteq> [] \<or> b \<noteq> [])
          then Some (of_nat (digits_value a) + of_nat (digits_value b) / 10 ^ length b)
          else None)"

definition execute_query ::
  "store_error option \<Rightarrow> (store_error + string list) \<Rightarrow> store_error option
     \<Rightarrow> rat \<Rightarrow> rat \<Rightarrow> string \<Rightarrow> bool \<Rightarrow> event list
     \<Rightarrow> (py_error + rat option \<times> string option) \<times> event list" where
  "execute_query cursor_reply reply rollback_reply start_time end_time sql analyze tr =
     (case cursor_reply of
        Some e \<Rightarrow> (Inl (StoreError e), tr)
      | None \<Rightarrow>
          (let tr1 = tr @ [CursorOpened];
               query_to_run = (if analyze then ''EXPLAIN ANALYZE '' @ sql else sql);
               tr2 = tr1 @ [Executed query_to_run]
           in case reply of
                Inl e \<Rightarrow>
                  (case rollback_reply of
                     None \<Rightarrow> (Inr (None, None), tr2 @ [RolledBack, CursorClosed])
                   | Some e' \<Rightarrow> (Inl (StoreError e'), tr2 @ [CursorClosed]))
              | Inr rows \<Rightarrow>
                  (let execution_time_ms = (end_time - start_time) * 1000 in
                   if analyze then
                     (let explain_output = join_lines rows in
                      case search_execution_time explain_output of
                        Some g \<Rightarrow>
                          (case py_float g of
                             Some t \<Rightarrow>
                               (Inr (Some t, Some explain_output), tr2 @ [CursorClosed])
                           | None \<Rightarrow> (Inl ValueError, tr2 @ [CursorClosed]))
                      | None \<Rightarrow>
                          (Inr (Some execution_time_ms, Some explain_output),
                           tr2 @ [CursorClosed]))
                   else (Inr (Some execution_time_ms, None), tr2 @ [CursorClosed]))))"

section \<open>Bulk CSV ingestion (main.py): \<open>read_combine_from_zips\<close>\<close>

text \<open>
  A DataFrame is its column labels and its rows; a cell is \<open>None\<close> where pandas
  would put NaN. The file system maps an archive name to what
  \<open>zipfile.ZipFile\<close> finds there, and an archive maps a member name to what
  \<open>pd.read_csv\<close> does with it.
\<close>

type_synonym cell = "string option"

record dataframe =
  columns :: "string list"
  rows :: "cell list list"

datatype csv_outcome =
    EmptyDataError | ParserError | MemoryError | UnexpectedError | Frame dataframe

datatype archive = BadZipFile | ZipFile "(string \<times> csv_outcome) list"

type_synonym filesystem = "string \<rightharpoonup> archive"

text \<open>One turn of the loop body: skip (\<open>continue\<close> or a logged exception), the
  \<open>return None\<close> of the \<open>MemoryError\<close> handler, or a loaded frame.\<close>

datatype load_result = Skipped | OutOfMemory | Loaded dataframe

definition load_one :: "filesystem \<Rightarrow> string \<Rightarrow> string \<Rightarrow> load_result" where
  "load_one fs zip_filename csv_filename =
     (case fs zip_filename of
        None \<Rightarrow> Skipped
      | Some BadZipFile \<Rightarrow> Skipped
      | Some (ZipFile members) \<Rightarrow>
          (case map_of members csv_filename of
             None \<Rightarrow> Skipped
           | Some EmptyDataError \<Rightarrow> Skipped
           | Some ParserError \<Rightarrow> Skipped
           | Some MemoryError \<Rightarrow> OutOfMemory
           | Some UnexpectedError \<Rightarrow> Skipped
           | Some (Frame df) \<Rightarrow> Loaded df))"

fun load_loop ::
  "filesystem \<Rightarrow> (string \<times> string) list \<Rightarrow> dataframe list \<Rightarrow> dataframe list option" where
  "load_loop fs [] dataframes = Some dataframes"
| "load_loop fs ((zip_filename, csv_filename) # rest) dataframes =
     (case load_one fs zip_filename csv_filename of
        Skipped \<Rightarrow> load_loop fs rest dataframes
      | OutOfMemory \<Rightarrow> None
      | Loaded df \<Rightarrow> load_loop fs rest (dataframes @ [df]))"

text \<open>
  \<open>pd.concat(dataframes, ignore_index=True)\<close>: the columns are the union of the
  frames' columns in order of first appearance, every row is re-indexed to them, and the
  rows follow each other in list order.
\<close>

definition union_columns :: "dataframe list \<Rightarrow> string list" where
  "union_columns dfs =
     foldl (\<lambda>acc c. if c \<in> set acc then acc else acc @ [c]) [] (concat (map columns dfs))"

definition reindex :: "string list \<Rightarrow> dataframe \<Rightarrow> cell list list" where
  "reindex cols df =
     map (\<lambda>r. map (\<lambda>c. case map_of (zip (columns df) r) c of None \<Rightarrow> None | Some v \<Rightarrow> v) cols)
         (rows df)"

definition pd_concat :: "dataframe list \<Rightarrow> dataframe" where
  "pd_concat dfs =
     (let cols = union_columns dfs
      in \<lparr>columns = cols, rows = concat (map (reindex cols) dfs)\<rparr>)"

text \<open>\<open>concat_raises\<close> says whether \<open>pd.concat\<close> itself raises (the code
  expects \<open>MemoryError\<close> there and catches every exception).\<close>

definition read_combine_from_zips ::
  "filesystem \<Rightarrow> bool \<Rightarrow> string list \<Rightarrow> string list \<Rightarrow> dataframe option" where
  "read_combine_from_zips fs concat_raises zip_files csv_names =
     (if length zip_files \<noteq> length csv_names then None
      else case load_loop fs (zip zip_files csv_names) [] of
             None \<Rightarrow> None
           | Some dataframes \<Rightarrow>
               if dataframes = [] then None
               else if concat_raises then None
               else Some (pd_concat dataframes))"

text \<open>What the loop is meant to compute, stated without the loop: the frames of the
  pairs that load, in list order, and whether some pair runs out of memory.\<close>

definition loaded_frames :: "filesystem \<Rightarrow> (string \<times> string) list \<Rightarrow> dataframe list" where
  "loaded_frames fs pairs =
     concat (map (\<lambda>(z, c). case load_one fs z c of Loaded df \<Rightarrow> [df] | _ \<Rightarrow> []) pairs)"

definition out_of_memory :: "filesystem \<Rightarrow> (string \<times> string) list \<Rightarrow> bool" where
  "out_of_memory fs pairs = list_ex (\<lambda>(z, c). load_one fs z c = OutOfMemory) pairs"

definition example_frame :: dataframe where
  "example_frame = \<lparr>columns = [''id''], rows = [[Some ''1'']]\<rparr>"

definition example_fs :: filesystem where
  "example_fs =
     [''a.zip'' \<mapsto> ZipFile [(''a.csv'', Frame example_frame)],
      ''b.zip'' \<mapsto> ZipFile [(''b.csv'', MemoryError)]]"

section \<open>The transaction demo (1.2.py): the store\<close>

text \<open>
  The table \<open>mutations_foncieres\<close> is a list of rows in scan order; only the columns
  the script names are kept. \<open>valeur_fonciere\<close>, \<open>date_mutation\<close> and
  \<open>code_postal\<close> may be NULL (\<open>None\<close>); the script's own INSERT leaves
  \<open>code_postal\<close> NULL. Numeric values are rationals. A date is (year, month, day).
\<close>

type_synonym date = "nat \<times> nat \<times> nat"

definition date_less :: "date \<Rightarrow> date \<Rightarrow> bool" where
  "date_less a b =
     (case a of (y1, m1, d1) \<Rightarrow> case b of (y2, m2, d2) \<Rightarrow>
        y1 < y2 \<or> (y1 = y2 \<and> (m1 < m2 \<or> (m1 = m2 \<and> d1 < d2))))"

record row =
  rid :: nat
  id_mutation :: string
  date_mutation :: "date option"
  nature_mutation :: string
  valeur_fonciere :: "rat option"
  code_commune :: string
  nom_commune :: string
  type_local :: string
  code_postal :: "string option"

text \<open>
  The world outside the script: the committed table, the serial counter behind
  \<open>id\<close>, and the faults the store raises. \<open>faults w n\<close> is the driver error, if
  any, that the \<open>n\<close>-th statement sent to the store fails with; \<open>tick\<close> counts the
  statements sent so far.
\<close>

record world =
  store :: "row list"
  next_id :: nat
  faults :: "nat \<Rightarrow> store_error option"
  tick :: nat

datatype isolation = ReadCommitted | RepeatableRead | Serializable

text \<open>A data-changing statement: \<open>UPDATE ... WHERE p\<close>, \<open>DELETE ... WHERE p\<close>,
  or the INSERT of one row.\<close>

datatype dml = Update "row \<Rightarrow> bool" "row \<Rightarrow> row" | Delete "row \<Rightarrow> bool" | Insert row

record transaction =
  snapshot :: "row list"
  pending :: "dml list"

record conn =
  isolation :: isolation
  autocommit :: bool
  txn :: "transaction option"
  closed :: bool

fun apply_write :: "dml \<Rightarrow> row list \<Rightarrow> row list" where
  "apply_write (Update p f) rs = map (\<lambda>r. if p r then f r else r) rs"
| "apply_write (Delete p) rs = filter (\<lambda>r. \<not> p r) rs"
| "apply_write (Insert r) rs = rs @ [r]"

fun rowcount :: "dml \<Rightarrow> row list \<Rightarrow> nat" where
  "rowcount (Update p f) rs = length (filter p rs)"
| "rowcount (Delete p) rs = length (filter p rs)"
| "rowcount (Insert r) rs = 1"

fun targets :: "dml \<Rightarrow> row \<Rightarrow> bool" where
  "targets (Update p f) r = p r"
| "targets (Delete p) r = p r"
| "targets (Insert r') r = False"

definition apply_all :: "dml list \<Rightarrow> row list \<Rightarrow> row list" where
  "apply_all ws rs = foldl (\<lambda>acc wr. apply_write wr acc) rs ws"

text \<open>
  \<open>get_connection\<close>: a fresh session; without an explicit level the server default,
  READ COMMITTED, applies. Connecting is taken to succeed.
\<close>

definition get_connection :: "bool \<Rightarrow> isolation option \<Rightarrow> conn" where
  "get_connection autocommit_flag isolation_level =
     \<lparr>isolation = (case isolation_level of None \<Rightarrow> ReadCommitted | Some l \<Rightarrow> l),
      autocommit = autocommit_flag, txn = None, closed = False\<rparr>"

text \<open>
  The first statement on a session without autocommit opens a transaction and fixes its
  snapshot. What a statement sees: the committed table (READ COMMITTED, or no transaction)
  or the snapshot (REPEATABLE READ, SERIALIZABLE), with the transaction's own writes
  applied on top.
\<close>

definition begin_txn :: "world \<Rightarrow> conn \<Rightarrow> conn" where
  "begin_txn w c =
     (if autocommit c \<or> txn c \<noteq> None then c
      else c\<lparr>txn := Some \<lparr>snapshot = store w, pending = []\<rparr>\<rparr>)"

definition visible :: "world \<Rightarrow> conn \<Rightarrow> row list" where
  "visible w c =
     (case txn c of
        None \<Rightarrow> store w
      | Some t \<Rightarrow>
          apply_all (pending t) (if isolation c = ReadCommitted then store w else snapshot t))"

text \<open>
  Above READ COMMITTED a write fails with a serialization failure when a row of the
  snapshot that it targets is no longer in the committed table as the snapshot has it
  (a concurrent transaction changed or deleted it and committed).
\<close>

definition concurrent_update :: "world \<Rightarrow> conn \<Rightarrow> dml \<Rightarrow> bool" where
  "concurrent_update w c wr =
     (case txn c of
        None \<Rightarrow> False
      | Some t \<Rightarrow>
          isolation c \<noteq> ReadCommitted
          \<and> list_ex (\<lambda>r. targets wr r \<and> \<not> List.member (store w) r) (snapshot t))"

text \<open>\<open>cur.execute\<close> of a query, with the function that computes its answer from the
  visible rows.\<close>

definition cur_select ::
  "(row list \<Rightarrow> 'a) \<Rightarrow> conn \<Rightarrow> world \<Rightarrow> (store_error + 'a) \<times> conn \<times> world" where
  "cur_select q c w =
     (let c' = begin_txn w c; w' = w\<lparr>tick := tick w + 1\<rparr> in
      case faults w (tick w) of
        Some e \<Rightarrow> (Inl e, c', w')
      | None \<Rightarrow> (Inr (q (visible w c')), c', w'))"

text \<open>\<open>cur.execute\<close> of a data-changing statement; the answer is \<open>cur.rowcount\<close>.
  With autocommit the table changes at once, otherwise the write joins the transaction.\<close>

definition cur_write ::
  "dml \<Rightarrow> conn \<Rightarrow> world \<Rightarrow> (store_error + nat) \<times> conn \<times> world" where
  "cur_write wr c w =
     (let c' = begin_txn w c; w' = w\<lparr>tick := tick w + 1\<rparr> in
      case faults w (tick w) of
        Some e \<Rightarrow> (Inl e, c', w')
      | None \<Rightarrow>
          if concurrent_update w c' wr then (Inl SerializationFailure, c', w')
          else
            (case txn c' of
               None \<Rightarrow> (Inr (rowcount wr (store w)), c', w'\<lparr>store := apply_write wr (store w)\<rparr>)
             | Some t \<Rightarrow>
                 (Inr (rowcount wr (visible w c')),
                  c'\<lparr>txn := Some (t\<lparr>pending := pending t @ [wr]\<rparr>)\<rparr>, w')))"

definition commit :: "conn \<Rightarrow> world \<Rightarrow> conn \<times> world" where
  "commit c w =
     (case txn c of
        None \<Rightarrow> (c, w)
      | Some t \<Rightarrow> (c\<lparr>txn := None\<rparr>, w\<lparr>store := apply_all (pending t) (store w)\<rparr>))"

definition rollback :: "conn \<Rightarrow> conn" where
  "rollback c = c\<lparr>txn := None\<rparr>"

definition close :: "conn \<Rightarrow> conn" where
  "close c = c\<lparr>txn := None, closed := True\<rparr>"

text \<open>\<open>with conn:\<close> commits when the block returns and rolls back when it raises,
  then lets the exception through.\<close>

definition with_conn ::
  "(conn \<Rightarrow> world \<Rightarrow> (py_error + 'a) \<times> conn \<times> world)
     \<Rightarrow> conn \<Rightarrow> world \<Rightarrow> (py_error + 'a) \<times> conn \<times> world" where
  "with_conn body c w =
     (case body c w of
        (Inr a, c1, w1) \<Rightarrow> (case commit c1 w1 of (c2, w2) \<Rightarrow> (Inr a, c2, w2))
      | (Inl e, c1, w1) \<Rightarrow> (Inl e, rollback c1, w1))"

section \<open>The guarded archive\<close>

definition older_than :: "date \<Rightarrow> row \<Rightarrow> bool" where
  "older_than cutoff_date r =
     (case date_mutation r of None \<Rightarrow> False | Some d \<Rightarrow> date_less d cutoff_date)"

definition count_older :: "date \<Rightarrow> row list \<Rightarrow> nat" where
  "count_older cutoff_date rs = length (filter (older_than cutoff_date) rs)"

text \<open>\<open>transaction_archive_old_mutations\<close>: counts, returns 0 when there is nothing
  to delete, deletes otherwise and returns the row count; \<open>-1\<close> on a driver error. It
  neither commits nor rolls back.\<close>

definition transaction_archive_old_mutations ::
  "conn \<Rightarrow> date \<Rightarrow> world \<Rightarrow> int \<times> conn \<times> world" where
  "transaction_archive_old_mutations c cutoff_date w =
     (case cur_select (count_older cutoff_date) c w of
        (Inl e, c1, w1) \<Rightarrow> (- 1, c1, w1)
      | (Inr count_to_delete, c1, w1) \<Rightarrow>
          if count_to_delete = 0 then (0, c1, w1)
          else
            (case cur_write (Delete (older_than cutoff_date)) c1 w1 of
               (Inl e, c2, w2) \<Rightarrow> (- 1, c2, w2)
             | (Inr deleted_count, c2, w2) \<Rightarrow> (int deleted_count, c2, w2)))"

text \<open>What \<open>run_archive_test_with_rollback\<close> measures and prints; a field is
  \<open>None\<close> when the run never reached that measurement.\<close>

record archive_report =
  initial_count :: "nat option"
  deleted_count :: "int option"
  count_after_delete :: "nat option"
  count_after_rollback :: "nat option"

text \<open>The \<open>finally\<close> block: roll back, count again, close.\<close>

definition archive_finally ::
  "archive_report \<Rightarrow> date \<Rightarrow> conn \<Rightarrow> world \<Rightarrow> archive_report \<times> conn \<times> world" where
  "archive_finally rep cutoff_date c w =
     (case cur_select (count_older cutoff_date) (rollback c) w of
        (Inl e, c1, w1) \<Rightarrow> (rep, close c1, w1)
      | (Inr n, c1, w1) \<Rightarrow> (rep\<lparr>count_after_rollback := Some n\<rparr>, close c1, w1))"

definition run_archive_test_with_rollback ::
  "date \<Rightarrow> world \<Rightarrow> archive_report \<times> conn \<times> world" where
  "run_archive_test_with_rollback cutoff_date w =
     (let c = get_connection False (Some ReadCommitted);
          rep = \<lparr>initial_count = None, deleted_count = None,
                 count_after_delete = None, count_after_rollback = None\<rparr>
      in case cur_select (count_older cutoff_date) c w of
           (Inl e, c1, w1) \<Rightarrow> archive_finally rep cutoff_date c1 w1
         | (Inr n, c1, w1) \<Rightarrow>
             (let rep1 = rep\<lparr>initial_count := Some n\<rparr> in
              if n = 0 then archive_finally rep1 cutoff_date c1 w1
              else
                (case transaction_archive_old_mutations c1 cutoff_date w1 of
                   (d, c2, w2) \<Rightarrow>
                     (let rep2 = rep1\<lparr>deleted_count := Some d\<rparr> in
                      if d \<ge> 0 then
                        (case cur_select (count_older cutoff_date) c2 w2 of
                           (Inl e, c3, w3) \<Rightarrow> archive_finally rep2 cutoff_date c3 w3
                         | (Inr m, c3, w3) \<Rightarrow>
                             archive_finally (rep2\<lparr>count_after_delete := Some m\<rparr>)
                               cutoff_date c3 w3)
                      else archive_finally rep2 cutoff_date c2 w2))))"

section \<open>Aggregates and handlers shared by the work units\<close>

text \<open>SQL aggregates skip NULLs and are NULL over no values.\<close>

definition non_null :: "'a option list \<Rightarrow> 'a list" where
  "non_null xs = concat (map (\<lambda>x. case x of None \<Rightarrow> [] | Some v \<Rightarrow> [v]) xs)"

definition sql_avg :: "rat option list \<Rightarrow> rat option" where
  "sql_avg xs =
     (let vs = non_null xs
      in if vs = [] then None else Some (sum_list vs / of_nat (length vs)))"

text \<open>\<open>except psycopg2.Error: return d\<close>; any other exception passes.\<close>

fun catch_store_error :: "'a \<Rightarrow> py_error + 'a \<Rightarrow> py_error + 'a" where
  "catch_store_error d (Inl (StoreError e)) = Inr d"
| "catch_store_error d (Inl other) = Inl other"
| "catch_store_error d (Inr a) = Inr a"

section \<open>The work units: sale registration and commune renaming\<close>

text \<open>\<open>str(n)\<close> for a natural number, as the f-strings print it.\<close>

fun string_of_nat :: "nat \<Rightarrow> string" where
  "string_of_nat n =
     (if n < 10 then [''0123456789'' ! n]
      else string_of_nat (n div 10) @ [''0123456789'' ! (n mod 10)])"

declare string_of_nat.simps [simp del]

text \<open>\<open>INSERT ... RETURNING id\<close>: the new row takes the next value of the serial
  counter, which is what \<open>cur.fetchone()[0]\<close> then reads.\<close>

definition cur_insert ::
  "(nat \<Rightarrow> row) \<Rightarrow> conn \<Rightarrow> world \<Rightarrow> (store_error + nat) \<times> conn \<times> world" where
  "cur_insert mk c w =
     (let new_id = next_id w in
      case cur_write (Insert (mk new_id)) c (w\<lparr>next_id := new_id + 1\<rparr>) of
        (Inl e, c1, w1) \<Rightarrow> (Inl e, c1, w1)
      | (Inr n, c1, w1) \<Rightarrow> (Inr new_id, c1, w1))"

record sale_details =
  sale_code_commune :: string
  sale_date_mutation :: date
  sale_valeur_fonciere :: rat
  sale_nom_commune :: string
  sale_type_local :: string

definition in_commune :: "string \<Rightarrow> row \<Rightarrow> bool" where
  "in_commune code r = (code_commune r = code)"

definition sale_row :: "nat \<Rightarrow> sale_details \<Rightarrow> nat \<Rightarrow> row" where
  "sale_row rnd sale new_id =
     \<lparr>rid = new_id, id_mutation = ''SALE-'' @ string_of_nat rnd,
      date_mutation = Some (sale_date_mutation sale), nature_mutation = ''Vente'',
      valeur_fonciere = Some (sale_valeur_fonciere sale),
      code_commune = sale_code_commune sale, nom_commune = sale_nom_commune sale,
      type_local = sale_type_local sale, code_postal = None\<rparr>"

text \<open>
  The body of \<open>transaction_register_sale\<close> inside \<open>with conn\<close>. Formatting the
  average with \<open>:.2f\<close> raises \<open>TypeError\<close> when the average is NULL. \<open>rnd\<close> is
  the number \<open>random.randint(10000, 99999)\<close> draws.
\<close>

definition register_sale_body ::
  "nat \<Rightarrow> sale_details \<Rightarrow> conn \<Rightarrow> world \<Rightarrow> (py_error + nat) \<times> conn \<times> world" where
  "register_sale_body rnd sale c w =
     (case cur_select (\<lambda>rs. sql_avg (map valeur_fonciere
                               (filter (in_commune (sale_code_commune sale)) rs))) c w of
        (Inl e, c1, w1) \<Rightarrow> (Inl (StoreError e), c1, w1)
      | (Inr None, c1, w1) \<Rightarrow> (Inl TypeError, c1, w1)
      | (Inr (Some avg_price), c1, w1) \<Rightarrow>
          (case cur_insert (sale_row rnd sale) c1 w1 of
             (Inl e, c2, w2) \<Rightarrow> (Inl (StoreError e), c2, w2)
           | (Inr new_id, c2, w2) \<Rightarrow> (Inr new_id, c2, w2)))"

text \<open>\<open>transaction_register_sale\<close>: the new id, or \<open>None\<close> after any driver
  error.\<close>

definition transaction_register_sale ::
  "nat \<Rightarrow> conn \<Rightarrow> sale_details \<Rightarrow> world \<Rightarrow> (py_error + nat option) \<times> conn \<times> world" where
  "transaction_register_sale rnd c sale w =
     (case with_conn (register_sale_body rnd sale) c w of
        (Inl e, c1, w1) \<Rightarrow> (catch_store_error None (Inl e), c1, w1)
      | (Inr new_id, c1, w1) \<Rightarrow> (Inr (Some new_id), c1, w1))"

text \<open>\<open>SELECT nom_commune ... WHERE code_commune = %s LIMIT 1\<close>, then
  \<open>fetchone\<close>.\<close>

definition first_nom :: "string \<Rightarrow> row list \<Rightarrow> string option" where
  "first_nom code rs =
     (case filter (in_commune code) rs of [] \<Rightarrow> None | r # _ \<Rightarrow> Some (nom_commune r))"

definition named :: "string \<Rightarrow> string \<Rightarrow> row \<Rightarrow> bool" where
  "named code name r = (code_commune r = code \<and> nom_commune r = name)"

definition rename :: "string \<Rightarrow> row \<Rightarrow> row" where
  "rename name r = r\<lparr>nom_commune := name\<rparr>"

text \<open>
  \<open>transaction_update_commune_name\<close> sleeps between its two statements, and the
  serialization scenario lets another session run during that sleep, so the function is
  written as its two halves. After the first half the work unit is either asleep with
  its transaction open, or it has already returned: a driver error leaves \<open>with conn\<close>
  by a rollback and the handler returns \<open>False\<close>, whatever the kind of the error.
\<close>

datatype updater = Asleep conn | Returned bool conn

definition update_name_read :: "conn \<Rightarrow> string \<Rightarrow> string \<Rightarrow> world \<Rightarrow> updater \<times> world" where
  "update_name_read c code old_name w =
     (case cur_select (first_nom code) c w of
        (Inl e, c1, w1) \<Rightarrow> (Returned False (rollback c1), w1)
      | (Inr current_name, c1, w1) \<Rightarrow> (Asleep c1, w1))"

definition update_name_write ::
  "updater \<Rightarrow> string \<Rightarrow> string \<Rightarrow> string \<Rightarrow> world \<Rightarrow> bool \<times> conn \<times> world" where
  "update_name_write u code old_name new_name w =
     (case u of
        Returned success c \<Rightarrow> (success, c, w)
      | Asleep c \<Rightarrow>
          (case cur_write (Update (named code old_name) (rename new_name)) c w of
             (Inl e, c1, w1) \<Rightarrow> (False, rollback c1, w1)
           | (Inr updated, c1, w1) \<Rightarrow>
               (case commit c1 w1 of (c2, w2) \<Rightarrow> (True, c2, w2))))"

definition transaction_update_commune_name ::
  "conn \<Rightarrow> string \<Rightarrow> string \<Rightarrow> string \<Rightarrow> world \<Rightarrow> bool \<times> conn \<times> world" where
  "transaction_update_commune_name c code old_name new_name w =
     (case update_name_read c code old_name w of
        (u, w1) \<Rightarrow> update_name_write u code old_name new_name w1)"

section \<open>The anomaly scenarios: common parts\<close>

text \<open>
  A scenario runs two threads that meet at a \<open>threading.Barrier(2)\<close>. The threads
  share nothing but the barrier, the store and a \<open>results\<close> dictionary, and each of
  them sends its statements one after the other, so a run is determined by the order in
  which the statements of the two threads reach the store. That order is fixed by the
  barrier and by the sleeps the code puts after it; statements themselves are taken to be
  short next to a sleep. A scenario is therefore a function of the world that runs the
  statements in that order. Its value is \<open>None\<close> when a thread never returns.
\<close>

datatype pyval = PyNone | PyBool bool | PyInt int | PyNum rat

type_synonym pydict = "string \<rightharpoonup> pyval"

definition num_or_none :: "rat option \<Rightarrow> pyval" where
  "num_or_none v = (case v of None \<Rightarrow> PyNone | Some x \<Rightarrow> PyNum x)"

text \<open>
  \<open>barrier.wait(timeout)\<close> for one of \<open>arrived\<close> callers at a barrier of
  \<open>parties\<close>: released when all have arrived; otherwise the call raises
  \<open>BrokenBarrierError\<close> once a given timeout has passed, and never returns when no
  timeout was given.
\<close>

datatype wait_result = Released | BrokenBarrier

definition barrier_wait :: "nat \<Rightarrow> nat \<Rightarrow> nat option \<Rightarrow> wait_result option" where
  "barrier_wait parties arrived timeout =
     (if parties \<le> arrived then Some Released
      else case timeout of None \<Rightarrow> None | Some t \<Rightarrow> Some BrokenBarrier)"

text \<open>What a scenario leaves behind: the \<open>results\<close> dictionary and the sessions of
  its two worker threads as they are at the end.\<close>

record scenario_report =
  results :: pydict
  sessions :: "conn list"

section \<open>The non-repeatable read scenario\<close>

definition has_id :: "nat \<Rightarrow> row \<Rightarrow> bool" where
  "has_id i r = (rid r = i)"

definition set_valeur :: "rat option \<Rightarrow> row \<Rightarrow> row" where
  "set_valeur v r = r\<lparr>valeur_fonciere := v\<rparr>"

text \<open>\<open>get_random_mutation_id\<close>: the id of the row at the offset the store draws
  (\<open>pick\<close>), or \<open>None\<close> when no row is there.\<close>

definition get_random_mutation_id ::
  "nat \<Rightarrow> conn \<Rightarrow> world \<Rightarrow> (store_error + nat option) \<times> conn \<times> world" where
  "get_random_mutation_id pick c w =
     cur_select (\<lambda>rs. if pick < length rs then Some (rid (rs ! pick)) else None) c w"

definition get_mutation_details ::
  "conn \<Rightarrow> nat \<Rightarrow> world \<Rightarrow> (store_error + (nat \<times> rat option \<times> string) option) \<times> conn \<times> world" where
  "get_mutation_details c mutation_id w =
     cur_select (\<lambda>rs. case filter (has_id mutation_id) rs of
                        [] \<Rightarrow> None
                      | r # _ \<Rightarrow> Some (rid r, valeur_fonciere r, nom_commune r)) c w"

text \<open>\<open>SELECT valeur_fonciere ... WHERE id = %s\<close> and \<open>fetchone\<close>; indexing the
  answer with \<open>[0]\<close> raises \<open>TypeError\<close> when there is no row.\<close>

definition select_valeur :: "nat \<Rightarrow> row list \<Rightarrow> rat option option" where
  "select_valeur mutation_id rs =
     (case filter (has_id mutation_id) rs of [] \<Rightarrow> None | r # _ \<Rightarrow> Some (valeur_fonciere r))"

text \<open>\<open>tx1_reader\<close> up to the barrier. The flag says whether the thread reaches the
  barrier; an exception before it ends the thread through the handler, which closes the
  session.\<close>

definition tx1_reader_first ::
  "nat \<Rightarrow> pydict \<Rightarrow> world \<Rightarrow> bool \<times> conn \<times> pydict \<times> world" where
  "tx1_reader_first mutation_id res w =
     (case cur_select (select_valeur mutation_id)
             (get_connection False (Some ReadCommitted)) w of
        (Inl e, c1, w1) \<Rightarrow> (False, close (rollback c1), res, w1)
      | (Inr None, c1, w1) \<Rightarrow> (False, close (rollback c1), res, w1)
      | (Inr (Some val1), c1, w1) \<Rightarrow>
          (True, c1, res(''tx1_read1'' \<mapsto> num_or_none val1), w1))"

text \<open>\<open>tx1_reader\<close> after the barrier and the one-second sleep.\<close>

definition tx1_reader_second ::
  "nat \<Rightarrow> wait_result \<Rightarrow> conn \<Rightarrow> pydict \<Rightarrow> world \<Rightarrow> conn \<times> pydict \<times> world" where
  "tx1_reader_second mutation_id released c res w =
     (case released of
        BrokenBarrier \<Rightarrow> (close (rollback c), res, w)
      | Released \<Rightarrow>
          (case cur_select (select_valeur mutation_id) c w of
             (Inl e, c1, w1) \<Rightarrow> (close (rollback c1), res, w1)
           | (Inr None, c1, w1) \<Rightarrow> (close (rollback c1), res, w1)
           | (Inr (Some val2), c1, w1) \<Rightarrow>
               (case commit c1 w1 of
                  (c2, w2) \<Rightarrow> (close c2, res(''tx1_read2'' \<mapsto> num_or_none val2), w2))))"

text \<open>\<open>tx2_writer\<close>. \<open>initial_details[1] + 10000\<close> is computed before the
  \<open>try\<close>: on a NULL value it raises \<open>TypeError\<close> and the thread ends there, its
  session left open, the barrier never reached.\<close>

definition tx2_writer_first :: "rat option \<Rightarrow> rat option \<times> conn" where
  "tx2_writer_first initial_valeur =
     (map_option (\<lambda>v. v + 10000) initial_valeur, get_connection False (Some ReadCommitted))"

definition tx2_writer_second ::
  "nat \<Rightarrow> rat \<Rightarrow> wait_result \<Rightarrow> conn \<Rightarrow> pydict \<Rightarrow> world \<Rightarrow> conn \<times> pydict \<times> world" where
  "tx2_writer_second mutation_id new_value released c res w =
     (case released of
        BrokenBarrier \<Rightarrow> (close c, res(''tx2_wrote'' \<mapsto> PyNone), w)
      | Released \<Rightarrow>
          (case with_conn
                  (\<lambda>c w. case cur_write (Update (has_id mutation_id) (set_valeur (Some new_value)))
                                 c w of
                            (Inl e, c1, w1) \<Rightarrow> (Inl (StoreError e), c1, w1)
                          | (Inr n, c1, w1) \<Rightarrow> (Inr n, c1, w1)) c w of
             (Inl e, c1, w1) \<Rightarrow> (close c1, res(''tx2_wrote'' \<mapsto> PyNone), w1)
           | (Inr n, c1, w1) \<Rightarrow> (close c1, res(''tx2_wrote'' \<mapsto> PyNum new_value), w1)))"

text \<open>The two threads from start to join. After the barrier the writer updates and
  commits at once, the reader sleeps a second and reads again.\<close>

definition nrr_threads ::
  "nat \<Rightarrow> rat option \<Rightarrow> world \<Rightarrow> (scenario_report \<times> world) option" where
  "nrr_threads mutation_id initial_valeur w =
     (case tx1_reader_first mutation_id Map.empty w of
        (reader_waits, rc, res1, w1) \<Rightarrow>
          (case tx2_writer_first initial_valeur of
             (new_value, wc) \<Rightarrow>
               (let arrived = (if reader_waits then 1 else 0)
                              + (if new_value \<noteq> None then 1 else 0)
                in case (if arrived = 0 then Some Released else barrier_wait 2 arrived None) of
                     None \<Rightarrow> None
                   | Some released \<Rightarrow>
                       (case (case new_value of
                                None \<Rightarrow> (wc, res1, w1)
                              | Some v \<Rightarrow> tx2_writer_second mutation_id v released wc res1 w1) of
                          (wc2, res2, w2) \<Rightarrow>
                            (case (if reader_waits
                                   then tx1_reader_second mutation_id released rc res2 w2
                                   else (rc, res2, w2)) of
                               (rc3, res3, w3) \<Rightarrow>
                                 Some (\<lparr>results = res3, sessions = [rc3, wc2]\<rparr>, w3))))))"

text \<open>The restoring statement, on its own autocommit session; an error is printed and
  nothing more.\<close>

definition restore_valeur :: "nat \<Rightarrow> rat option \<Rightarrow> world \<Rightarrow> world" where
  "restore_valeur mutation_id initial_valeur w =
     (case cur_write (Update (has_id mutation_id) (set_valeur initial_valeur))
             (get_connection True None) w of
        (r, c1, w1) \<Rightarrow> w1)"

definition demo_non_repeatable_read ::
  "nat \<Rightarrow> world \<Rightarrow> ((py_error + scenario_report) \<times> world) option" where
  "demo_non_repeatable_read pick w =
     (let nothing = \<lparr>results = Map.empty, sessions = []\<rparr> in
      case get_random_mutation_id pick (get_connection True None) w of
        (Inl e, c1, w1) \<Rightarrow> Some (Inl (StoreError e), w1)
      | (Inr None, c1, w1) \<Rightarrow> Some (Inr nothing, w1)
      | (Inr (Some mutation_id), c1, w1) \<Rightarrow>
          if mutation_id = 0 then Some (Inr nothing, w1)
          else
            (case get_mutation_details c1 mutation_id w1 of
               (Inl e, c2, w2) \<Rightarrow> Some (Inl (StoreError e), w2)
             | (Inr None, c2, w2) \<Rightarrow> Some (Inr nothing, w2)
             | (Inr (Some (i, initial_valeur, nom)), c2, w2) \<Rightarrow>
                 (case nrr_threads mutation_id initial_valeur w2 of
                    None \<Rightarrow> None
                  | Some (rep, w3) \<Rightarrow>
                      Some (Inr rep, restore_valeur mutation_id initial_valeur w3))))"

section \<open>The phantom read scenario\<close>

definition test_commune :: string where
  "test_commune = ''01053''"

definition test_value :: rat where
  "test_value = 9999999"

text \<open>\<open>WHERE code_commune = %s AND valeur_fonciere > %s\<close> with
  \<open>(test_commune, test_value - 1)\<close>.\<close>

definition expensive :: "row \<Rightarrow> bool" where
  "expensive r =
     (code_commune r = test_commune
      \<and> (case valeur_fonciere r of None \<Rightarrow> False | Some v \<Rightarrow> v > test_value - 1))"

definition count_expensive :: "row list \<Rightarrow> nat" where
  "count_expensive rs = length (filter expensive rs)"

text \<open>\<open>tx1_reader_rc\<close> and \<open>tx1_reader_rr\<close> are the same code at two isolation
  levels: count, wait at the barrier, sleep a second, count again.\<close>

definition tx1_reader_count_first ::
  "isolation \<Rightarrow> pydict \<Rightarrow> world \<Rightarrow> bool \<times> conn \<times> pydict \<times> world" where
  "tx1_reader_count_first level res w =
     (case cur_select count_expensive (get_connection False (Some level)) w of
        (Inl e, c1, w1) \<Rightarrow> (False, close (rollback c1), res, w1)
      | (Inr count1, c1, w1) \<Rightarrow> (True, c1, res(''tx1_read1'' \<mapsto> PyInt (int count1)), w1))"

definition tx1_reader_count_second ::
  "wait_result \<Rightarrow> conn \<Rightarrow> pydict \<Rightarrow> world \<Rightarrow> conn \<times> pydict \<times> world" where
  "tx1_reader_count_second released c res w =
     (case released of
        BrokenBarrier \<Rightarrow> (close (rollback c), res, w)
      | Released \<Rightarrow>
          (case cur_select count_expensive c w of
             (Inl e, c1, w1) \<Rightarrow> (close (rollback c1), res, w1)
           | (Inr count2, c1, w1) \<Rightarrow>
               (case commit c1 w1 of
                  (c2, w2) \<Rightarrow> (close c2, res(''tx1_read2'' \<mapsto> PyInt (int count2)), w2))))"

definition phantom_sale :: "string \<Rightarrow> sale_details" where
  "phantom_sale nom =
     \<lparr>sale_code_commune = test_commune, sale_date_mutation = (2024, 1, 1),
      sale_valeur_fonciere = test_value, sale_nom_commune = nom,
      sale_type_local = ''Maison''\<rparr>"

text \<open>The clean-up inside the inserter's \<open>finally\<close>: \<open>DELETE ... WHERE id = %s\<close>
  on a new autocommit session.\<close>

definition cleanup_phantom :: "nat \<Rightarrow> world \<Rightarrow> world" where
  "cleanup_phantom new_id w =
     (case cur_write (Delete (has_id new_id)) (get_connection True None) w of
        (r, c1, w1) \<Rightarrow> w1)"

text \<open>
  \<open>tx2_inserter_rc\<close> and \<open>tx2_inserter_rr\<close> after the barrier: register the sale,
  record whether an id came back, and in the \<open>finally\<close> block close the session and,
  when there is an id, delete the new row again. All of this is one straight run of the
  inserter's thread, without a sleep other than the one inside
  \<open>transaction_register_sale\<close>.
\<close>

definition tx2_inserter ::
  "nat \<Rightarrow> string \<Rightarrow> wait_result \<Rightarrow> pydict \<Rightarrow> world \<Rightarrow> conn \<times> pydict \<times> world" where
  "tx2_inserter rnd nom released res w =
     (let c = get_connection False (Some ReadCommitted) in
      case released of
        BrokenBarrier \<Rightarrow> (close c, res(''tx2_inserted'' \<mapsto> PyBool False), w)
      | Released \<Rightarrow>
          (case transaction_register_sale rnd c (phantom_sale nom) w of
             (Inl e, c1, w1) \<Rightarrow> (close c1, res(''tx2_inserted'' \<mapsto> PyBool False), w1)
           | (Inr None, c1, w1) \<Rightarrow> (close c1, res(''tx2_inserted'' \<mapsto> PyBool False), w1)
           | (Inr (Some new_id), c1, w1) \<Rightarrow>
               (close c1, res(''tx2_inserted'' \<mapsto> PyBool True),
                if new_id \<noteq> 0 then cleanup_phantom new_id w1 else w1)))"

text \<open>One of the two tests of \<open>demo_phantom_read\<close>. The inserter always reaches the
  barrier; the reader does unless its first count fails. After the barrier the inserter
  runs to its end within the reader's one-second sleep.\<close>

definition phantom_test ::
  "isolation \<Rightarrow> string \<Rightarrow> nat \<Rightarrow> world \<Rightarrow> (scenario_report \<times> world) option" where
  "phantom_test level nom rnd w =
     (case tx1_reader_count_first level Map.empty w of
        (reader_waits, rc, res1, w1) \<Rightarrow>
          (case barrier_wait 2 ((if reader_waits then 1 else 0) + 1) None of
             None \<Rightarrow> None
           | Some released \<Rightarrow>
               (case tx2_inserter rnd nom released res1 w1 of
                  (ic, res2, w2) \<Rightarrow>
                    (case (if reader_waits then tx1_reader_count_second released rc res2 w2
                           else (rc, res2, w2)) of
                       (rc3, res3, w3) \<Rightarrow>
                         Some (\<lparr>results = res3, sessions = [rc3, ic]\<rparr>, w3)))))"

definition demo_phantom_read ::
  "nat \<Rightarrow> nat \<Rightarrow> world \<Rightarrow> ((scenario_report \<times> scenario_report) \<times> world) option" where
  "demo_phantom_read rnd_rc rnd_rr w =
     (case phantom_test ReadCommitted ''Phantom Test'' rnd_rc w of
        None \<Rightarrow> None
      | Some (results_rc, w1) \<Rightarrow>
          (case phantom_test RepeatableRead ''Phantom Test RR'' rnd_rr w1 of
             None \<Rightarrow> None
           | Some (results_rr, w2) \<Rightarrow> Some ((results_rc, results_rr), w2)))"

section \<open>The serialization failure scenario\<close>

definition test_code_commune :: string where
  "test_code_commune = ''01344''"

text \<open>The end of \<open>tx1_updater\<close> and \<open>tx2_updater\<close>: record the flag, commit or
  roll back (the work unit has already done either), close.\<close>

definition updater_done ::
  "string \<Rightarrow> bool \<times> conn \<times> world \<Rightarrow> pydict \<Rightarrow> conn \<times> pydict \<times> world" where
  "updater_done key r res =
     (case r of
        (success, c, w) \<Rightarrow>
          (case (if success then commit c w else (rollback c, w)) of
             (c1, w1) \<Rightarrow> (close c1, res(key \<mapsto> PyBool success), w1)))"

text \<open>
  Both updaters pass the barrier at time 0. \<open>tx1\<close> sends its SELECT at once and its
  UPDATE after the \<open>d1\<close> milliseconds its work unit sleeps; \<open>tx2\<close> first sleeps 300
  milliseconds, then sends its SELECT, and its UPDATE \<open>d2\<close> milliseconds later.
  \<open>d1\<close> and \<open>d2\<close> are what \<open>random.uniform(0.1, 0.5)\<close> draws. Each UPDATE is
  followed by its commit at once.
\<close>

definition serialization_threads ::
  "nat \<Rightarrow> nat \<Rightarrow> string \<Rightarrow> string \<Rightarrow> string \<Rightarrow> world \<Rightarrow> (scenario_report \<times> world) option" where
  "serialization_threads d1 d2 original_name new1 new2 w =
     (let c1 = (get_connection False (Some RepeatableRead))\<lparr>autocommit := False\<rparr>;
          c2 = (get_connection False (Some RepeatableRead))\<lparr>autocommit := False\<rparr>;
          res = [''tx1_success'' \<mapsto> PyBool False, ''tx2_success'' \<mapsto> PyBool False];
          code = test_code_commune
      in case barrier_wait 2 2 None of
           None \<Rightarrow> None
         | Some BrokenBarrier \<Rightarrow>
             Some (\<lparr>results = res, sessions = [close (rollback c1), close (rollback c2)]\<rparr>, w)
         | Some Released \<Rightarrow>
             if d1 < 300 then
               (case updater_done ''tx1_success''
                       (transaction_update_commune_name c1 code original_name new1 w) res of
                  (s1, res1, w1) \<Rightarrow>
                    (case updater_done ''tx2_success''
                            (transaction_update_commune_name c2 code original_name new2 w1) res1 of
                       (s2, res2, w2) \<Rightarrow> Some (\<lparr>results = res2, sessions = [s1, s2]\<rparr>, w2)))
             else
               (case update_name_read c1 code original_name w of
                  (u1, w1) \<Rightarrow>
                    (case update_name_read c2 code original_name w1 of
                       (u2, w2) \<Rightarrow>
                         if d1 \<le> 300 + d2 then
                           (case updater_done ''tx1_success''
                                   (update_name_write u1 code original_name new1 w2) res of
                              (s1, res1, w3) \<Rightarrow>
                                (case updater_done ''tx2_success''
                                        (update_name_write u2 code original_name new2 w3) res1 of
                                   (s2, res2, w4) \<Rightarrow>
                                     Some (\<lparr>results = res2, sessions = [s1, s2]\<rparr>, w4)))
                         else
                           (case updater_done ''tx2_success''
                                   (update_name_write u2 code original_name new2 w2) res of
                              (s2, res1, w3) \<Rightarrow>
                                (case updater_done ''tx1_success''
                                        (update_name_write u1 code original_name new1 w3) res1 of
                                   (s1, res2, w4) \<Rightarrow>
                                     Some (\<lparr>results = res2, sessions = [s1, s2]\<rparr>, w4))))))"

text \<open>The session of an updater thread as it is when it reaches the barrier, and the same
  session once its transaction has taken its snapshot.\<close>

definition rr_conn :: conn where
  "rr_conn = (get_connection False (Some RepeatableRead))\<lparr>autocommit := False\<rparr>"

definition snap_conn :: "row list \<Rightarrow> conn" where
  "snap_conn snap = rr_conn\<lparr>txn := Some \<lparr>snapshot = snap, pending = []\<rparr>\<rparr>"

definition restore_name :: "string \<Rightarrow> world \<Rightarrow> world" where
  "restore_name original_name w =
     (case cur_write (Update (in_commune test_code_commune) (rename original_name))
             (get_connection True None) w of
        (r, c1, w1) \<Rightarrow> w1)"

text \<open>\<open>demo_serialization_failure\<close>; \<open>r1\<close> and \<open>r2\<close> are what
  \<open>random.randint(0, 99)\<close> draws for the two new names. When the set-up cannot read a
  name the function returns before any thread starts.\<close>

definition demo_serialization_failure ::
  "nat \<Rightarrow> nat \<Rightarrow> nat \<Rightarrow> nat \<Rightarrow> world \<Rightarrow> (scenario_report \<times> world) option" where
  "demo_serialization_failure d1 d2 r1 r2 w =
     (case cur_select (first_nom test_code_commune) (get_connection True None) w of
        (Inl e, c1, w1) \<Rightarrow> Some (\<lparr>results = Map.empty, sessions = []\<rparr>, w1)
      | (Inr None, c1, w1) \<Rightarrow> Some (\<lparr>results = Map.empty, sessions = []\<rparr>, w1)
      | (Inr (Some original_name), c1, w1) \<Rightarrow>
          (case serialization_threads d1 d2 original_name
                  (original_name @ ''_TX1_'' @ string_of_nat r1)
                  (original_name @ ''_TX2_'' @ string_of_nat r2) w1 of
             None \<Rightarrow> None
           | Some (rep, w2) \<Rightarrow> Some (rep, restore_name original_name w2)))"


section \<open>Example tables\<close>

definition no_faults :: "nat \<Rightarrow> store_error option" where
  "no_faults = (\<lambda>_. None)"

definition example_row ::
  "nat \<Rightarrow> date \<Rightarrow> rat option \<Rightarrow> string \<Rightarrow> string \<Rightarrow> string option \<Rightarrow> row" where
  "example_row i d v code name postal =
     \<lparr>rid = i, id_mutation = ''2017-1'', date_mutation = Some d, nature_mutation = ''Vente'',
      valeur_fonciere = v, code_commune = code, nom_commune = name,
      type_local = ''Maison'', code_postal = postal\<rparr>"

definition archive_world :: world where
  "archive_world =
     \<lparr>store = [example_row 1 (2016, 12, 30) (Some 100) ''01053'' ''Bourg'' None,
               example_row 2 (2017, 6, 1) (Some 200) ''01053'' ''Bourg'' None],
      next_id = 3, faults = no_faults, tick = 0\<rparr>"

definition scenario_world :: world where
  "scenario_world =
     \<lparr>store = [example_row 1 (2016, 12, 30) (Some 100) ''01053'' ''Bourg'' None,
               example_row 2 (2017, 6, 1) (Some 10000000) ''01053'' ''Bourg'' None,
               example_row 3 (2017, 6, 1) (Some 5) ''01344'' ''Saint-Denis'' None,
               example_row 4 (2017, 6, 2) (Some 6) ''01344'' ''St Denis'' None],
      next_id = 5, faults = no_faults, tick = 0\<rparr>"

text \<open>The same world with a store that fails every statement with the given error.\<close>

definition failing_world :: "store_error \<Rightarrow> world" where
  "failing_world e = scenario_world\<lparr>faults := (\<lambda>_. Some e)\<rparr>"



definition null_world :: world where
  "null_world =
     \<lparr>store = [example_row 1 (2017, 3, 1) None ''01053'' ''Bourg'' None],
      next_id = 2, faults = no_faults, tick = 0\<rparr>"

text \<open>The same world with a store that fails the sixth statement it receives: in the
  non-repeatable read scenario that is the restoring statement.\<close>

definition restore_fails_world :: world where
  "restore_fails_world =
     scenario_world\<lparr>faults := (\<lambda>n. if n = 5 then Some OtherStoreError else None)\<rparr>"

text \<open>A table in which every row of commune 01344 carries the same name.\<close>

definition uniform_world :: world where
  "uniform_world =
     \<lparr>store = [example_row 1 (2016, 12, 30) (Some 100) ''01053'' ''Bourg'' None,
               example_row 2 (2017, 6, 1) (Some 5) ''01344'' ''Saint-Denis'' None,
               example_row 3 (2017, 6, 2) (Some 6) ''01344'' ''Saint-Denis'' None],
      next_id = 4, faults = no_faults, tick = 0\<rparr>"

section \<open>Properties of \<open>execute_query\<close>\<close>

lemma execute_query_last_event:
  "last (snd (execute_query None reply rb ts te sql analyze tr)) = CursorClosed"
  by (cases reply) (auto simp: execute_query_def Let_def split: option.splits)

lemma execute_query_returned_none:
  assumes "fst (execute_query c reply rb ts te sql analyze tr) = Inr (x, y)"
  shows "x = None \<longleftrightarrow> (\<exists>e. reply = Inl e)"
proof (cases reply)
  case (Inl e)
  then show ?thesis
    using assms by (auto simp: execute_query_def Let_def split: option.splits)
next
  case (Inr b)
  have "x \<noteq> None"
    using assms Inr
    apply (auto simp: execute_query_def Let_def split: option.splits if_splits)
    apply (metis option.distinct(1))
    done
  then show ?thesis using Inr by simp
qed

text \<open>
  Claim C10, as stated, at a concrete run: the query fails with a driver error and so
  does \<open>conn.rollback()\<close> in the handler (a lost connection does both). The error
  of the rollback leaves the function: it does not return \<open>(None, None)\<close>, and the
  connection has not been rolled back.
\<close>

theorem execute_query_rollback_counterexample:
  "execute_query None (Inl OtherStoreError) (Some OtherStoreError) 0 1 ''SELECT 1;'' False []
     = (Inl (StoreError OtherStoreError), [CursorOpened, Executed ''SELECT 1;'', CursorClosed])"
  by (simp add: execute_query_def)

text \<open>
  Claim C10, amended. When \<open>conn.cursor()\<close> succeeds, a driver error raised by the
  query makes \<open>execute_query\<close> call \<open>conn.rollback()\<close>; when that succeeds the
  function returns \<open>(None, None)\<close>, and when it raises, its error leaves the function.
  An error of \<open>conn.cursor()\<close> leaves the function as well, before any cursor exists.
  A cursor that was opened is closed at the end of every path. A successful query without
  analysis returns the elapsed time paired with \<open>None\<close>. Whenever the function returns
  a pair, its first component is \<open>None\<close> exactly when the query failed.
\<close>

theorem execute_query_store_errors:
  "execute_query None (Inl e) None ts te sql analyze tr =
     (Inr (None, None),
      tr @ [CursorOpened, Executed (if analyze then ''EXPLAIN ANALYZE '' @ sql else sql),
            RolledBack, CursorClosed])
   \<and> execute_query None (Inl e) (Some e') ts te sql analyze tr =
     (Inl (StoreError e'),
      tr @ [CursorOpened, Executed (if analyze then ''EXPLAIN ANALYZE '' @ sql else sql),
            CursorClosed])
   \<and> execute_query (Some e) reply rb ts te sql analyze tr = (Inl (StoreError e), tr)
   \<and> last (snd (execute_query None reply rb ts te sql analyze tr)) = CursorClosed
   \<and> execute_query None (Inr plan) rb ts te sql False tr =
       (Inr (Some ((te - ts) * 1000), None), tr @ [CursorOpened, Executed sql, CursorClosed])
   \<and> (\<forall>x y. fst (execute_query c reply rb ts te sql analyze tr) = Inr (x, y)
          \<longrightarrow> (x = None \<longleftrightarrow> (\<exists>e. reply = Inl e)))"
  using execute_query_last_event [of reply rb ts te sql analyze tr]
        execute_query_returned_none [of c reply rb ts te sql analyze tr]
  by (simp add: execute_query_def)

theorem execute_query_store_errors_witness:
  "fst (execute_query None (Inl SerializationFailure) None 0 1 ''SELECT 1;'' False [])
     = Inr (None, None)
   \<and> (\<exists>e. (Inl SerializationFailure :: store_error + string list) = Inl e)"
proof -
  from execute_query_store_errors [where e = SerializationFailure and ts = 0 and te = 1
      and sql = "''SELECT 1;''" and analyze = False and tr = "[]"
      and reply = "Inl SerializationFailure" and rb = None and c = None]
  have 1: "fst (execute_query None (Inl SerializationFailure) None 0 1 ''SELECT 1;'' False [])
     = Inr (None, None)"
    and 2: "\<forall>x y. fst (execute_query None (Inl SerializationFailure) None 0 1 ''SELECT 1;''
                False []) = Inr (x, y)
          \<longrightarrow> (x = None \<longleftrightarrow> (\<exists>e. (Inl SerializationFailure :: store_error + string list) = Inl e))"
    by simp_all
  from 2 1 have "\<exists>e. (Inl SerializationFailure :: store_error + string list) = Inl e"
    by blast
  with 1 show ?thesis by simp
qed

section \<open>Properties of \<open>read_combine_from_zips\<close>\<close>

lemma load_loop_eq:
  "load_loop fs pairs acc =
     (if out_of_memory fs pairs then None else Some (acc @ loaded_frames fs pairs))"
proof (induction pairs arbitrary: acc)
  case Nil
  then show ?case by (simp add: out_of_memory_def loaded_frames_def)
next
  case (Cons p pairs)
  obtain z c where p: "p = (z, c)" by (cases p)
  show ?case
    using Cons.IH
    by (cases "load_one fs z c") (simp_all add: p out_of_memory_def loaded_frames_def)
qed

lemma length_rows_pd_concat:
  "length (rows (pd_concat dfs)) = sum_list (map (\<lambda>df. length (rows df)) dfs)"
  by (simp add: pd_concat_def Let_def reindex_def length_concat comp_def)

text \<open>
  Claim C9, as stated, at a concrete file system: the first archive loads one row, the
  second runs out of memory. The lists have equal length and a CSV file was loaded, yet
  the function returns \<open>None\<close>.
\<close>

theorem read_combine_none_counterexample:
  "length [''a.zip'', ''b.zip''] = length [''a.csv'', ''b.csv'']
   \<and> loaded_frames example_fs (zip [''a.zip'', ''b.zip''] [''a.csv'', ''b.csv'']) \<noteq> []
   \<and> read_combine_from_zips example_fs False [''a.zip'', ''b.zip''] [''a.csv'', ''b.csv''] = None"
  by (simp add: read_combine_from_zips_def loaded_frames_def load_one_def example_fs_def)

text \<open>
  Claim C9, amended. \<open>read_combine_from_zips\<close> returns \<open>None\<close> exactly when the two
  lists differ in length, or reading some archive raises \<open>MemoryError\<close>, or no CSV
  file was loaded, or the concatenation raises. Otherwise it returns the concatenation of
  the loaded frames in archive-list order, whose row count is the sum of theirs.
\<close>

theorem read_combine_from_zips_result:
  "(read_combine_from_zips fs concat_raises zip_files csv_names = None
      \<longleftrightarrow> (length zip_files \<noteq> length csv_names
           \<or> out_of_memory fs (zip zip_files csv_names)
           \<or> loaded_frames fs (zip zip_files csv_names) = []
           \<or> concat_raises))
   \<and> (\<forall>df. read_combine_from_zips fs concat_raises zip_files csv_names = Some df \<longrightarrow>
         df = pd_concat (loaded_frames fs (zip zip_files csv_names))
         \<and> length (rows df) =
             sum_list (map (\<lambda>d. length (rows d)) (loaded_frames fs (zip zip_files csv_names))))"
  by (auto simp: read_combine_from_zips_def load_loop_eq length_rows_pd_concat
           split: if_splits)

theorem read_combine_from_zips_result_witness:
  "read_combine_from_zips example_fs False [''a.zip''] [''a.csv''] = Some example_frame
   \<and> length (rows example_frame) = 1"
proof -
  have l: "loaded_frames example_fs (zip [''a.zip''] [''a.csv'']) = [example_frame]"
    by (simp add: loaded_frames_def load_one_def example_fs_def)
  have m: "\<not> out_of_memory example_fs (zip [''a.zip''] [''a.csv''])"
    by (simp add: out_of_memory_def load_one_def example_fs_def)
  have c: "pd_concat [example_frame] = example_frame"
    by (simp add: pd_concat_def union_columns_def reindex_def example_frame_def)
  from read_combine_from_zips_result [of example_fs False "[''a.zip'']" "[''a.csv'']"] l m c
  show ?thesis by (auto simp: example_frame_def)
qed

section \<open>Statements on a session\<close>

lemma cur_select_eq:
  "cur_select q c w =
     ((case faults w (tick w) of
         Some e \<Rightarrow> Inl e
       | None \<Rightarrow> Inr (q (visible w (begin_txn w c)))),
      begin_txn w c, w\<lparr>tick := tick w + 1\<rparr>)"
  by (simp add: cur_select_def Let_def split: option.splits)

lemma cur_write_txn_eq:
  "\<not> autocommit c \<Longrightarrow> cur_write wr c w =
     (let c' = begin_txn w c in
      case (case faults w (tick w) of
         Some e \<Rightarrow> (Inl e, c')
       | None \<Rightarrow>
           if concurrent_update w c' wr then (Inl SerializationFailure, c')
           else (Inr (rowcount wr (visible w c')),
                 c'\<lparr>txn := Some ((the (txn c'))\<lparr>pending := pending (the (txn c')) @ [wr]\<rparr>)\<rparr>))
      of (r, c2) \<Rightarrow> (r, c2, w\<lparr>tick := tick w + 1\<rparr>))"
  by (auto simp: cur_write_def Let_def begin_txn_def split: option.splits)

section \<open>Properties of the guarded archive\<close>

lemma run_archive_store:
  "store (snd (snd (run_archive_test_with_rollback d w))) = store w"
  by (simp add: run_archive_test_with_rollback_def transaction_archive_old_mutations_def
        archive_finally_def cur_select_eq cur_write_txn_eq get_connection_def Let_def
        begin_txn_def rollback_def close_def
        split: option.splits sum.splits prod.splits if_splits)

lemma count_older_deleted: "count_older d (filter (\<lambda>r. \<not> older_than d r) rs) = 0"
  by (simp add: count_older_def)

lemma run_archive_fault_free:
  assumes "faults w = (\<lambda>_. None)"
  shows "fst (run_archive_test_with_rollback d w) =
     (let n = count_older d (store w) in
      \<lparr>initial_count = Some n,
       deleted_count = (if n = 0 then None else Some (int n)),
       count_after_delete = (if n = 0 then None else Some 0),
       count_after_rollback = Some n\<rparr>)"
  using assms
  by (simp add: run_archive_test_with_rollback_def transaction_archive_old_mutations_def
        archive_finally_def cur_select_eq cur_write_txn_eq get_connection_def Let_def
        begin_txn_def rollback_def close_def visible_def apply_all_def concurrent_update_def
        count_older_deleted)
    (simp add: count_older_def)

text \<open>
  Claim C7. For every cutoff date the dry run leaves the committed table as it was,
  whatever the store raises on the way. When the store raises nothing, the count of
  rows older than the cutoff measured after the forced rollback equals the count measured
  before the archive work unit, and the count measured inside the transaction after the
  delete is zero; when the cutoff matches no row the harness skips the delete and that
  measurement, and both counts are zero.
\<close>

theorem archive_dry_run:
  "store (snd (snd (run_archive_test_with_rollback cutoff_date w))) = store w
   \<and> (faults w = (\<lambda>_. None) \<longrightarrow>
        initial_count (fst (run_archive_test_with_rollback cutoff_date w))
          = Some (count_older cutoff_date (store w))
        \<and> count_after_rollback (fst (run_archive_test_with_rollback cutoff_date w))
          = Some (count_older cutoff_date (store w))
        \<and> count_after_delete (fst (run_archive_test_with_rollback cutoff_date w))
          = (if count_older cutoff_date (store w) = 0 then None else Some 0))"
  using run_archive_fault_free [of w cutoff_date]
  by (simp add: run_archive_store Let_def)

theorem archive_dry_run_witness:
  "store (snd (snd (run_archive_test_with_rollback (2017, 1, 10) archive_world)))
     = store archive_world
   \<and> initial_count (fst (run_archive_test_with_rollback (2017, 1, 10) archive_world)) = Some 1
   \<and> count_after_rollback (fst (run_archive_test_with_rollback (2017, 1, 10) archive_world))
       = Some 1
   \<and> count_after_delete (fst (run_archive_test_with_rollback (2017, 1, 10) archive_world))
       = Some 0"
proof -
  have f: "faults archive_world = (\<lambda>_. None)"
    by (simp add: archive_world_def no_faults_def)
  have n: "count_older (2017, 1, 10) (store archive_world) = 1"
    by (simp add: archive_world_def count_older_def older_than_def example_row_def
          date_less_def)
  from archive_dry_run [of "(2017, 1, 10)" archive_world] f n show ?thesis by simp
qed

section \<open>Properties of the work units\<close>















section \<open>Properties of the non-repeatable read scenario\<close>

lemma select_valeur_updated:
  "select_valeur i (apply_write (Update (has_id i) (set_valeur v)) rs) =
     (case select_valeur i rs of None \<Rightarrow> None | Some x \<Rightarrow> Some v)"
  by (induction rs) (auto simp: select_valeur_def has_id_def set_valeur_def split: list.splits)

lemma details_from_valeur:
  "select_valeur i rs = Some v \<Longrightarrow>
   \<exists>nom. (case filter (has_id i) rs of [] \<Rightarrow> None
           | r # x \<Rightarrow> Some (rid r, valeur_fonciere r, nom_commune r)) = Some (i, v, nom)"
  by (induction rs) (auto simp: select_valeur_def has_id_def split: list.splits if_splits)

lemma nrr_threads_fault_free:
  assumes f: "faults w = (\<lambda>_. None)" and v: "select_valeur i (store w) = Some (Some V)"
  shows "nrr_threads i (Some V) w =
     Some (\<lparr>results = [''tx1_read1'' \<mapsto> PyNum V, ''tx2_wrote'' \<mapsto> PyNum (V + 10000),
                        ''tx1_read2'' \<mapsto> PyNum (V + 10000)],
            sessions = [close (get_connection False (Some ReadCommitted)),
                        close (get_connection False (Some ReadCommitted))]\<rparr>,
           w\<lparr>tick := tick w + 3,
             store := apply_write (Update (has_id i) (set_valeur (Some (V + 10000)))) (store w)\<rparr>)"
  using f v
  by (simp add: nrr_threads_def tx1_reader_first_def tx1_reader_second_def tx2_writer_first_def
        tx2_writer_second_def with_conn_def cur_select_eq cur_write_def commit_def barrier_wait_def
        Let_def begin_txn_def visible_def apply_all_def concurrent_update_def get_connection_def
        close_def rollback_def num_or_none_def select_valeur_updated
        del: apply_write.simps)

lemma restore_valeur_fault_free:
  "faults w = (\<lambda>_. None) \<Longrightarrow>
   restore_valeur i v w =
     w\<lparr>tick := tick w + 1, store := apply_write (Update (has_id i) (set_valeur v)) (store w)\<rparr>"
  by (simp add: restore_valeur_def cur_write_def Let_def begin_txn_def get_connection_def
        concurrent_update_def del: apply_write.simps)

text \<open>
  Claim C5. In the non-repeatable read scenario, with a store that raises nothing and a
  picked record whose value \<open>V\<close> is not NULL: the reader, at READ COMMITTED, first reads
  \<open>V\<close>; both threads pass the barrier; the writer commits \<open>V + 10000\<close>; the
  reader's second read, in the same transaction, returns \<open>V + 10000\<close>; the two reads
  differ, which is the anomaly the reader tests for.
\<close>

theorem non_repeatable_read_observed:
  assumes f: "faults w = (\<lambda>_. None)" and p: "pick < length (store w)"
    and z: "rid (store w ! pick) \<noteq> 0"
    and v: "select_valeur (rid (store w ! pick)) (store w) = Some (Some V)"
  shows "\<exists>rep w'. demo_non_repeatable_read pick w = Some (Inr rep, w')
           \<and> results rep ''tx1_read1'' = Some (PyNum V)
           \<and> results rep ''tx2_wrote'' = Some (PyNum (V + 10000))
           \<and> results rep ''tx1_read2'' = Some (PyNum (V + 10000))
           \<and> results rep ''tx1_read1'' \<noteq> results rep ''tx1_read2''"
proof -
  let ?i = "rid (store w ! pick)"
  obtain nom where d: "(case filter (has_id ?i) (store w) of [] \<Rightarrow> None
           | r # x \<Rightarrow> Some (rid r, valeur_fonciere r, nom_commune r)) = Some (?i, Some V, nom)"
    using details_from_valeur [OF v] by auto
  let ?w2 = "w\<lparr>tick := tick w + 2\<rparr>"
  have f2: "faults ?w2 = (\<lambda>_. None)" using f by simp
  have v2: "select_valeur ?i (store ?w2) = Some (Some V)" using v by simp
  note t = nrr_threads_fault_free [OF f2 v2]
  have "demo_non_repeatable_read pick w =
      (case nrr_threads ?i (Some V) ?w2 of
         None \<Rightarrow> None
       | Some (rep, w3) \<Rightarrow> Some (Inr rep, restore_valeur ?i (Some V) w3))"
    using f p z d
    by (simp add: demo_non_repeatable_read_def get_random_mutation_id_def
          get_mutation_details_def cur_select_eq begin_txn_def visible_def get_connection_def
          Let_def)
  then show ?thesis unfolding t by simp
qed

theorem non_repeatable_read_observed_witness:
  "\<exists>rep w'. demo_non_repeatable_read 0 scenario_world = Some (Inr rep, w')
           \<and> results rep ''tx1_read1'' = Some (PyNum 100)
           \<and> results rep ''tx2_wrote'' = Some (PyNum 10100)
           \<and> results rep ''tx1_read2'' = Some (PyNum 10100)
           \<and> results rep ''tx1_read1'' \<noteq> results rep ''tx1_read2''"
proof -
  have f: "faults scenario_world = (\<lambda>_. None)"
    by (simp add: scenario_world_def no_faults_def)
  have p: "0 < length (store scenario_world)" by (simp add: scenario_world_def)
  have z: "rid (store scenario_world ! 0) \<noteq> 0"
    by (simp add: scenario_world_def example_row_def)
  have v: "select_valeur (rid (store scenario_world ! 0)) (store scenario_world)
             = Some (Some 100)"
    by (simp add: scenario_world_def example_row_def select_valeur_def has_id_def)
  from non_repeatable_read_observed [OF f p z v] show ?thesis by simp
qed

section \<open>The barrier\<close>

text \<open>
  Claim C3, as stated, at a concrete table: the only record has a NULL value, so the
  writer raises \<open>TypeError\<close> before it reaches the barrier; the reader waits at the
  barrier without a timeout and the scenario never returns.
\<close>

theorem missed_rendezvous_counterexample:
  "demo_non_repeatable_read 0 null_world = None"
  by (simp add: demo_non_repeatable_read_def get_random_mutation_id_def get_mutation_details_def
        nrr_threads_def tx1_reader_first_def tx2_writer_first_def barrier_wait_def
        cur_select_eq begin_txn_def visible_def get_connection_def Let_def apply_all_def
        null_world_def no_faults_def example_row_def has_id_def select_valeur_def)

lemma barrier_wait_no_timeout:
  "barrier_wait parties arrived None = (if parties \<le> arrived then Some Released else None)"
  by (simp add: barrier_wait_def)

lemma closed_updater_done: "closed (fst (updater_done key r res))"
  by (simp add: updater_done_def close_def split: prod.splits)

lemma closed_reader_second: "closed (fst (tx1_reader_second i rel c res w))"
  by (simp add: tx1_reader_second_def close_def cur_select_eq
        split: prod.splits wait_result.splits option.splits sum.splits)

lemma closed_writer_second: "closed (fst (tx2_writer_second i v rel c res w))"
  by (simp add: tx2_writer_second_def close_def
        split: prod.splits wait_result.splits option.splits sum.splits)

lemma closed_reader_first:
  "\<not> fst (tx1_reader_first i res w) \<Longrightarrow> closed (fst (snd (tx1_reader_first i res w)))"
  by (simp add: tx1_reader_first_def close_def cur_select_eq
        split: prod.splits option.splits sum.splits)

lemma nrr_threads_hangs_iff:
  "nrr_threads i v w = None \<longleftrightarrow> (fst (tx1_reader_first i Map.empty w) \<noteq> (v \<noteq> None))"
  by (auto simp: nrr_threads_def barrier_wait_def tx2_writer_first_def Let_def
        split: prod.splits option.splits)

lemma nrr_threads_closed:
  assumes "nrr_threads i v w = Some (rep, w')" "v \<noteq> None"
  shows "list_all closed (sessions rep)"
proof -
  obtain b rc res1 w1 where r: "tx1_reader_first i Map.empty w = (b, rc, res1, w1)"
    by (cases "tx1_reader_first i Map.empty w") auto
  obtain x where x: "v = Some x" using assms(2) by auto
  have b: "b" using assms(1) nrr_threads_hangs_iff [of i v w] r x by auto
  obtain wc2 res2 w2 where t: "tx2_writer_second i (x + 10000) Released
        (get_connection False (Some ReadCommitted)) res1 w1 = (wc2, res2, w2)"
    by (cases "tx2_writer_second i (x + 10000) Released
        (get_connection False (Some ReadCommitted)) res1 w1") auto
  obtain rc3 res3 w3 where u: "tx1_reader_second i Released rc res2 w2 = (rc3, res3, w3)"
    by (cases "tx1_reader_second i Released rc res2 w2") auto
  have "closed wc2" using closed_writer_second [of i "x + 10000" Released
        "get_connection False (Some ReadCommitted)" res1 w1] t by simp
  moreover have "closed rc3" using closed_reader_second [of i Released rc res2 w2] u by simp
  moreover have "sessions rep = [rc3, wc2]"
    using assms(1) r x b t u
    by (auto simp: nrr_threads_def barrier_wait_def tx2_writer_first_def Let_def)
  ultimately show ?thesis by simp
qed

lemma closed_count_second: "closed (fst (tx1_reader_count_second rel c res w))"
  by (simp add: tx1_reader_count_second_def close_def cur_select_eq
        split: prod.splits wait_result.splits option.splits sum.splits)

lemma closed_inserter: "closed (fst (tx2_inserter rnd nom rel res w))"
  by (simp add: tx2_inserter_def close_def Let_def
        split: prod.splits wait_result.splits option.splits sum.splits)

lemma phantom_test_hangs_iff:
  "phantom_test level nom rnd w = None \<longleftrightarrow> \<not> fst (tx1_reader_count_first level Map.empty w)"
  by (auto simp: phantom_test_def barrier_wait_def split: prod.splits option.splits)

lemma phantom_test_closed:
  assumes "phantom_test level nom rnd w = Some (rep, w')"
  shows "list_all closed (sessions rep)"
proof -
  obtain b rc res1 w1 where r: "tx1_reader_count_first level Map.empty w = (b, rc, res1, w1)"
    by (cases "tx1_reader_count_first level Map.empty w") auto
  have b: "b" using assms phantom_test_hangs_iff [of level nom rnd w] r by auto
  obtain ic res2 w2 where t: "tx2_inserter rnd nom Released res1 w1 = (ic, res2, w2)"
    by (cases "tx2_inserter rnd nom Released res1 w1") auto
  obtain rc3 res3 w3 where u: "tx1_reader_count_second Released rc res2 w2 = (rc3, res3, w3)"
    by (cases "tx1_reader_count_second Released rc res2 w2") auto
  have "closed ic" using closed_inserter [of rnd nom Released res1 w1] t by simp
  moreover have "closed rc3" using closed_count_second [of Released rc res2 w2] u by simp
  moreover have "sessions rep = [rc3, ic]"
    using assms r b t u by (auto simp: phantom_test_def barrier_wait_def)
  ultimately show ?thesis by simp
qed

lemma updater_done_closed_eq:
  "updater_done key r res = (s, res', w') \<Longrightarrow> closed s"
  using closed_updater_done [of key r res] by simp

lemma serialization_threads_returns:
  "\<exists>rep w'. serialization_threads d1 d2 original new1 new2 w = Some (rep, w')
            \<and> list_all closed (sessions rep)"
  by (auto simp: serialization_threads_def barrier_wait_def Let_def
        split: prod.splits dest: updater_done_closed_eq)


text \<open>
  Claim C3, amended. Every \<open>barrier.wait()\<close> of a scenario is called without a
  timeout, so it returns only when both parties have arrived. A scenario hangs exactly
  when one of its two threads reaches the barrier and the other does not; no
  \<open>BarrierTimeout\<close> is reported. When both threads reach the barrier, both are
  released and both sessions are closed at the end of the scenario; in the serialization
  scenario both threads always reach it.
\<close>

theorem barrier_without_timeout:
  "barrier_wait parties arrived None = (if parties \<le> arrived then Some Released else None)
   \<and> (nrr_threads i v w = None \<longleftrightarrow> (fst (tx1_reader_first i Map.empty w) \<noteq> (v \<noteq> None)))
   \<and> (phantom_test level nom rnd w = None
        \<longleftrightarrow> \<not> fst (tx1_reader_count_first level Map.empty w))
   \<and> (\<forall>rep w'. nrr_threads i v w = Some (rep, w') \<and> v \<noteq> None
         \<longrightarrow> list_all closed (sessions rep))
   \<and> (\<forall>rep w'. phantom_test level nom rnd w = Some (rep, w')
         \<longrightarrow> list_all closed (sessions rep))
   \<and> (\<exists>rep w'. serialization_threads d1 d2 original new1 new2 w = Some (rep, w')
         \<and> list_all closed (sessions rep))"
  using barrier_wait_no_timeout [of parties arrived] nrr_threads_hangs_iff [of i v w]
    phantom_test_hangs_iff [of level nom rnd w] nrr_threads_closed [of i v w]
    phantom_test_closed [of level nom rnd w]
    serialization_threads_returns [of d1 d2 original new1 new2 w]
  by blast

theorem barrier_without_timeout_witness:
  "nrr_threads 1 None scenario_world = None
   \<and> (\<exists>rep w'. nrr_threads 1 (Some 100) scenario_world = Some (rep, w')
         \<and> list_all closed (sessions rep))"
proof -
  have r: "fst (tx1_reader_first 1 Map.empty scenario_world)"
    by (simp add: tx1_reader_first_def cur_select_eq begin_txn_def visible_def
          get_connection_def apply_all_def scenario_world_def no_faults_def example_row_def
          has_id_def select_valeur_def)
  have t: "(nrr_threads 1 v scenario_world = None
             \<longleftrightarrow> (fst (tx1_reader_first 1 Map.empty scenario_world) \<noteq> (v \<noteq> None)))
        \<and> (\<forall>rep w'. nrr_threads 1 v scenario_world = Some (rep, w') \<and> v \<noteq> None
              \<longrightarrow> list_all closed (sessions rep))" for v
    using barrier_without_timeout [of 2 2 1 v scenario_world ReadCommitted "[]" 0 0 0
        "[]" "[]" "[]"]
    by (elim conjE) (intro conjI; assumption)
  have a: "nrr_threads 1 None scenario_world = None" using t [of None] r by simp
  have "nrr_threads 1 (Some 100) scenario_world \<noteq> None" using t [of "Some 100"] r by simp
  then obtain rep w' where s: "nrr_threads 1 (Some 100) scenario_world = Some (rep, w')"
    by auto
  then have "list_all closed (sessions rep)" using t [of "Some 100"] by blast
  with a s show ?thesis by blast
qed

section \<open>Properties of the serialization failure scenario\<close>

lemma no_conflict_with_self: "list_ex (\<lambda>r. P r \<and> r \<notin> set rs) rs = False"
  by (simp add: list_ex_iff)

lemma nom_rename: "nom_commune (rename new x) = new"
  by (simp add: rename_def)

lemma renamed_row_gone:
  assumes "named c old r" "new \<noteq> old"
  shows "r \<notin> set (apply_write (Update (named c old) (rename new)) rs)"
proof
  assume "r \<in> set (apply_write (Update (named c old) (rename new)) rs)"
  then have "r \<in> (\<lambda>x. if named c old x then rename new x else x) ` set rs" by simp
  then obtain x where x: "r = (if named c old x then rename new x else x)" by (rule imageE)
  show False
  proof (cases "named c old x")
    case True
    then have "nom_commune r = new" using x by (simp add: nom_rename)
    moreover have "nom_commune r = old" using assms(1) by (simp add: named_def)
    ultimately show False using assms(2) by simp
  next
    case False
    then show False using x assms(1) by simp
  qed
qed


lemma renamed_conflict:
  assumes "filter (named c old) rs \<noteq> []" "new \<noteq> old"
  shows "list_ex (\<lambda>r. named c old r \<and> r \<notin> set (apply_write (Update (named c old) (rename new)) rs)) rs"
proof -
  from assms(1) obtain r where r: "r \<in> set rs" "named c old r"
    by (metis filter_False)
  have "r \<notin> set (apply_write (Update (named c old) (rename new)) rs)"
    using r(2) assms(2) by (rule renamed_row_gone)
  with r show ?thesis unfolding list_ex_iff by blast
qed

lemma not_named_renamed: "new1 \<noteq> old \<Longrightarrow> \<not> named c old (rename new1 x)"
  by (simp add: named_def rename_def)

lemma rename_twice:
  "new1 \<noteq> old \<Longrightarrow>
   apply_write (Update (named c old) (rename new2)) (apply_write (Update (named c old) (rename new1)) rs)
   = apply_write (Update (named c old) (rename new1)) rs"
  by (induction rs) (simp_all add: not_named_renamed)

lemma update_name_read_ff:
  "faults w = (\<lambda>_. None) \<Longrightarrow>
   update_name_read rr_conn code old w = (Asleep (snap_conn (store w)), w\<lparr>tick := tick w + 1\<rparr>)"
  by (simp add: update_name_read_def cur_select_eq begin_txn_def rr_conn_def snap_conn_def
        get_connection_def)

lemma update_name_write_ff:
  "faults w = (\<lambda>_. None) \<Longrightarrow>
   update_name_write (Asleep (snap_conn snap)) code old new w =
     (if list_ex (\<lambda>r. named code old r \<and> r \<notin> set (store w)) snap
      then (False, rr_conn, w\<lparr>tick := tick w + 1\<rparr>)
      else (True, rr_conn,
            w\<lparr>tick := tick w + 1,
              store := apply_write (Update (named code old) (rename new)) (store w)\<rparr>))"
  by (simp add: update_name_write_def cur_write_def begin_txn_def rr_conn_def snap_conn_def
        get_connection_def concurrent_update_def commit_def rollback_def apply_all_def Let_def
        del: apply_write.simps)

lemma updater_done_ff:
  "updater_done key (b, rr_conn, w) res = (close rr_conn, res(key \<mapsto> PyBool b), w)"
  by (simp add: updater_done_def commit_def rollback_def rr_conn_def get_connection_def close_def)

lemma update_commune_name_ff:
  "faults w = (\<lambda>_. None) \<Longrightarrow>
   transaction_update_commune_name rr_conn code old new w =
     (True, rr_conn,
      w\<lparr>tick := tick w + 2,
        store := apply_write (Update (named code old) (rename new)) (store w)\<rparr>)"
  by (simp add: transaction_update_commune_name_def update_name_read_ff update_name_write_ff
        no_conflict_with_self del: apply_write.simps)

lemma serialization_threads_unfold:
  "serialization_threads d1 d2 original new1 new2 w =
     (let res = [''tx1_success'' \<mapsto> PyBool False, ''tx2_success'' \<mapsto> PyBool False];
          code = test_code_commune
      in if d1 < 300 then
               (case updater_done ''tx1_success''
                       (transaction_update_commune_name rr_conn code original new1 w) res of
                  (s1, res1, w1) \<Rightarrow>
                    (case updater_done ''tx2_success''
                            (transaction_update_commune_name rr_conn code original new2 w1) res1 of
                       (s2, res2, w2) \<Rightarrow> Some (\<lparr>results = res2, sessions = [s1, s2]\<rparr>, w2)))
             else
               (case update_name_read rr_conn code original w of
                  (u1, w1) \<Rightarrow>
                    (case update_name_read rr_conn code original w1 of
                       (u2, w2) \<Rightarrow>
                         if d1 \<le> 300 + d2 then
                           (case updater_done ''tx1_success''
                                   (update_name_write u1 code original new1 w2) res of
                              (s1, res1, w3) \<Rightarrow>
                                (case updater_done ''tx2_success''
                                        (update_name_write u2 code original new2 w3) res1 of
                                   (s2, res2, w4) \<Rightarrow>
                                     Some (\<lparr>results = res2, sessions = [s1, s2]\<rparr>, w4)))
                         else
                           (case updater_done ''tx2_success''
                                   (update_name_write u2 code original new2 w2) res of
                              (s2, res1, w3) \<Rightarrow>
                                (case updater_done ''tx1_success''
                                        (update_name_write u1 code original new1 w3) res1 of
                                   (s1, res2, w4) \<Rightarrow>
                                     Some (\<lparr>results = res2, sessions = [s1, s2]\<rparr>, w4))))))"
  unfolding serialization_threads_def barrier_wait_def rr_conn_def Let_def by simp

lemma serialization_sequential:
  assumes f: "faults w = (\<lambda>_. None)" and d: "d1 < 300" and n: "new1 \<noteq> original"
  shows "serialization_threads d1 d2 original new1 new2 w =
     Some (\<lparr>results = [''tx1_success'' \<mapsto> PyBool True, ''tx2_success'' \<mapsto> PyBool True],
            sessions = [close rr_conn, close rr_conn]\<rparr>,
           w\<lparr>tick := tick w + 4,
             store := apply_write (Update (named test_code_commune original) (rename new1))
                        (store w)\<rparr>)"
  using f d
  by (simp add: serialization_threads_unfold update_commune_name_ff updater_done_ff Let_def
        rename_twice [OF n] del: apply_write.simps)

lemma serialization_overlap_tx1_first:
  assumes f: "faults w = (\<lambda>_. None)" and d: "300 \<le> d1" "d1 \<le> 300 + d2"
    and n: "new1 \<noteq> original"
    and e: "filter (named test_code_commune original) (store w) \<noteq> []"
  shows "serialization_threads d1 d2 original new1 new2 w =
     Some (\<lparr>results = [''tx1_success'' \<mapsto> PyBool True, ''tx2_success'' \<mapsto> PyBool False],
            sessions = [close rr_conn, close rr_conn]\<rparr>,
           w\<lparr>tick := tick w + 4,
             store := apply_write (Update (named test_code_commune original) (rename new1))
                        (store w)\<rparr>)"
  using f d renamed_conflict [OF e n]
  by (simp add: serialization_threads_unfold update_name_read_ff update_name_write_ff
        updater_done_ff Let_def no_conflict_with_self del: apply_write.simps)

lemma serialization_overlap_tx2_first:
  assumes f: "faults w = (\<lambda>_. None)" and d: "300 + d2 < d1"
    and n: "new2 \<noteq> original"
    and e: "filter (named test_code_commune original) (store w) \<noteq> []"
  shows "serialization_threads d1 d2 original new1 new2 w =
     Some (\<lparr>results = [''tx2_success'' \<mapsto> PyBool True, ''tx1_success'' \<mapsto> PyBool False],
            sessions = [close rr_conn, close rr_conn]\<rparr>,
           w\<lparr>tick := tick w + 4,
             store := apply_write (Update (named test_code_commune original) (rename new2))
                        (store w)\<rparr>)"
  using f d renamed_conflict [OF e n]
  by (simp add: serialization_threads_unfold update_name_read_ff update_name_write_ff
        updater_done_ff Let_def no_conflict_with_self del: apply_write.simps)

lemma first_nom_named:
  "first_nom code rs = Some original \<Longrightarrow> filter (named code original) rs \<noteq> []"
  by (induction rs) (auto simp: first_nom_def in_commune_def named_def split: if_splits)

lemma serialization_threads_fault_free:
  assumes f: "faults w = (\<lambda>_. None)"
    and n: "first_nom test_code_commune (store w) = Some original"
    and n1: "new1 \<noteq> original" and n2: "new2 \<noteq> original"
  shows "\<exists>rep. serialization_threads d1 d2 original new1 new2 w =
           Some (rep, w\<lparr>tick := tick w + 4,
                       store := apply_write (Update (named test_code_commune original)
                                  (rename (if d1 \<le> 300 + d2 then new1 else new2))) (store w)\<rparr>)
         \<and> results rep ''tx1_success'' = Some (PyBool (d1 \<le> 300 + d2))
         \<and> results rep ''tx2_success'' = Some (PyBool (d1 < 300 \<or> 300 + d2 < d1))
         \<and> sessions rep = [close rr_conn, close rr_conn]"
proof -
  have e: "filter (named test_code_commune original) (store w) \<noteq> []"
    using n by (rule first_nom_named)
  consider "d1 < 300" | "300 \<le> d1" "d1 \<le> 300 + d2" | "300 + d2 < d1" by linarith
  then show ?thesis
  proof cases
    case 1
    then show ?thesis
      using serialization_sequential [OF f 1 n1, of d2 new2] by simp
  next
    case 2
    then show ?thesis
      using serialization_overlap_tx1_first [OF f 2 n1 e, of new2] by simp
  next
    case 3
    then show ?thesis
      using serialization_overlap_tx2_first [OF f 3 n2 e, of new1] by simp
  qed
qed






section \<open>Properties of the phantom read scenario\<close>

lemma delete_inserted:
  "list_all (\<lambda>r. rid r \<noteq> i) rs \<Longrightarrow> rid new = i \<Longrightarrow>
   filter (\<lambda>r. \<not> has_id i r) (rs @ [new]) = rs"
  by (induction rs) (auto simp: has_id_def)

lemma phantom_test_fault_free:
  assumes f: "faults w = (\<lambda>_. None)"
    and a: "sql_avg (map valeur_fonciere (filter (in_commune test_commune) (store w))) \<noteq> None"
    and z: "next_id w \<noteq> 0"
    and u: "list_all (\<lambda>r. rid r \<noteq> next_id w) (store w)"
  shows "phantom_test level nom rnd w =
     Some (\<lparr>results = [''tx1_read1'' \<mapsto> PyInt (int (count_expensive (store w))),
                        ''tx2_inserted'' \<mapsto> PyBool True,
                        ''tx1_read2'' \<mapsto> PyInt (int (count_expensive (store w)))],
            sessions = [close (get_connection False (Some level)),
                        close (get_connection False (Some ReadCommitted))]\<rparr>,
           w\<lparr>tick := tick w + 5, next_id := next_id w + 1\<rparr>)"
proof -
  have d: "filter (\<lambda>r. \<not> has_id (next_id w) r)
             (store w @ [sale_row rnd (phantom_sale nom) (next_id w)]) = store w"
    using u by (rule delete_inserted) (simp add: sale_row_def)
  obtain av where av: "sql_avg (map valeur_fonciere (filter (in_commune test_commune) (store w)))
      = Some av" using a by auto
  show ?thesis
    using f z av d
    by (simp add: phantom_test_def tx1_reader_count_first_def tx1_reader_count_second_def
        tx2_inserter_def transaction_register_sale_def register_sale_body_def cur_insert_def
        cleanup_phantom_def with_conn_def cur_select_eq cur_write_def commit_def barrier_wait_def
        Let_def begin_txn_def visible_def apply_all_def concurrent_update_def get_connection_def
        close_def rollback_def phantom_sale_def)
qed

lemma phantom_test_no_average:
  assumes f: "faults w = (\<lambda>_. None)"
    and a: "sql_avg (map valeur_fonciere (filter (in_commune test_commune) (store w))) = None"
  shows "phantom_test level nom rnd w =
     Some (\<lparr>results = [''tx1_read1'' \<mapsto> PyInt (int (count_expensive (store w))),
                        ''tx2_inserted'' \<mapsto> PyBool False,
                        ''tx1_read2'' \<mapsto> PyInt (int (count_expensive (store w)))],
            sessions = [close (get_connection False (Some level)),
                        close (get_connection False (Some ReadCommitted))]\<rparr>,
           w\<lparr>tick := tick w + 3\<rparr>)"
  using f a
  by (simp add: phantom_test_def tx1_reader_count_first_def tx1_reader_count_second_def
        tx2_inserter_def transaction_register_sale_def register_sale_body_def
        with_conn_def cur_select_eq commit_def barrier_wait_def
        Let_def begin_txn_def visible_def apply_all_def get_connection_def
        close_def rollback_def phantom_sale_def)

lemma phantom_test_restores:
  assumes f: "faults w = (\<lambda>_. None)" and z: "next_id w \<noteq> 0"
    and u: "list_all (\<lambda>r. rid r < next_id w) (store w)"
  shows "\<exists>rep w'. phantom_test level nom rnd w = Some (rep, w')
           \<and> store w' = store w \<and> faults w' = faults w \<and> next_id w \<le> next_id w'
           \<and> results rep ''tx1_read2'' = results rep ''tx1_read1''"
proof (cases "sql_avg (map valeur_fonciere (filter (in_commune test_commune) (store w)))")
  case None
  show ?thesis unfolding phantom_test_no_average [OF f None] by simp
next
  case (Some a)
  have a: "sql_avg (map valeur_fonciere (filter (in_commune test_commune) (store w))) \<noteq> None"
    using Some by simp
  have u': "list_all (\<lambda>r. rid r \<noteq> next_id w) (store w)"
    using u by (auto simp: list_all_iff)
  show ?thesis unfolding phantom_test_fault_free [OF f a z u'] by simp
qed

lemma demo_phantom_restores:
  assumes f: "faults w = (\<lambda>_. None)" and z: "next_id w \<noteq> 0"
    and u: "list_all (\<lambda>r. rid r < next_id w) (store w)"
  shows "\<exists>reps w'. demo_phantom_read rnd_rc rnd_rr w = Some (reps, w') \<and> store w' = store w"
proof -
  obtain rep1 w1 where 1: "phantom_test ReadCommitted ''Phantom Test'' rnd_rc w = Some (rep1, w1)"
      "store w1 = store w" "faults w1 = faults w" "next_id w \<le> next_id w1"
    using phantom_test_restores [OF f z u] by blast
  have f1: "faults w1 = (\<lambda>_. None)" using f 1(3) by simp
  have z1: "next_id w1 \<noteq> 0" using z 1(4) by simp
  have u1: "list_all (\<lambda>r. rid r < next_id w1) (store w1)"
    using u 1(2,4) by (auto simp: list_all_iff)
  obtain rep2 w2 where 2: "phantom_test RepeatableRead ''Phantom Test RR'' rnd_rr w1
        = Some (rep2, w2)" "store w2 = store w1"
    using phantom_test_restores [OF f1 z1 u1] by blast
  show ?thesis
    using 1(1,2) 2 by (simp add: demo_phantom_read_def)
qed

text \<open>
  Claim C6 on the code, at a concrete table whose commune 01053 holds one row above the
  threshold, with a store that raises nothing. The inserter commits one new qualifying
  row between the reader's two counts (\<open>tx2_inserted\<close> is \<open>True\<close>), and deletes it
  again in its own \<open>finally\<close> block, long before the reader has slept its second.
  The reader's second count equals its first at READ COMMITTED as well as at REPEATABLE
  READ: the phantom the scenario announces at READ COMMITTED is never counted.
\<close>

theorem phantom_deleted_before_second_count:
  "map_option (results \<circ> fst \<circ> fst) (demo_phantom_read 12345 23456 scenario_world)
     = Some [''tx1_read1'' \<mapsto> PyInt 1, ''tx2_inserted'' \<mapsto> PyBool True,
             ''tx1_read2'' \<mapsto> PyInt 1]
   \<and> map_option (results \<circ> snd \<circ> fst) (demo_phantom_read 12345 23456 scenario_world)
     = Some [''tx1_read1'' \<mapsto> PyInt 1, ''tx2_inserted'' \<mapsto> PyBool True,
             ''tx1_read2'' \<mapsto> PyInt 1]"
proof -
  let ?w1 = "scenario_world\<lparr>tick := tick scenario_world + 5,
                            next_id := next_id scenario_world + 1\<rparr>"
  have f: "faults scenario_world = (\<lambda>_. None)" "faults ?w1 = (\<lambda>_. None)"
    by (simp_all add: scenario_world_def no_faults_def)
  have a: "sql_avg (map valeur_fonciere (filter (in_commune test_commune)
             (store scenario_world))) \<noteq> None"
     "sql_avg (map valeur_fonciere (filter (in_commune test_commune) (store ?w1))) \<noteq> None"
    by (simp_all add: scenario_world_def example_row_def in_commune_def test_commune_def
          sql_avg_def non_null_def Let_def)
  have z: "next_id scenario_world \<noteq> 0" "next_id ?w1 \<noteq> 0"
    by (simp_all add: scenario_world_def)
  have u: "list_all (\<lambda>r. rid r \<noteq> next_id scenario_world) (store scenario_world)"
     "list_all (\<lambda>r. rid r \<noteq> next_id ?w1) (store ?w1)"
    by (simp_all add: scenario_world_def example_row_def)
  have c: "count_expensive (store scenario_world) = 1" "count_expensive (store ?w1) = 1"
    by (simp_all add: scenario_world_def example_row_def count_expensive_def expensive_def
          test_commune_def test_value_def)
  show ?thesis
    unfolding demo_phantom_read_def
      phantom_test_fault_free [OF f(1) a(1) z(1) u(1)] option.case prod.case
      phantom_test_fault_free [OF f(2) a(2) z(2) u(2)] c
    by simp
qed

section \<open>Restoration after the scenarios\<close>

lemma update_absent:
  "list_all (\<lambda>r. rid r \<noteq> i) rs \<Longrightarrow> apply_write (Update (has_id i) f) rs = rs"
  by (induction rs) (simp_all add: has_id_def)

lemma set_valeur_back:
  "valeur_fonciere r = v0 \<Longrightarrow> set_valeur v0 (set_valeur v r) = r"
  by (simp add: set_valeur_def)

lemma has_id_set_valeur: "has_id i (set_valeur v r) = has_id i r"
  by (simp add: has_id_def set_valeur_def)

lemma restore_roundtrip:
  assumes "distinct (map rid rs)" "select_valeur i rs = Some v0"
  shows "apply_write (Update (has_id i) (set_valeur v0))
           (apply_write (Update (has_id i) (set_valeur v)) rs) = rs"
  using assms
proof (induction rs)
  case Nil
  then show ?case by simp
next
  case (Cons r rs)
  show ?case
  proof (cases "has_id i r")
    case True
    then have v: "valeur_fonciere r = v0" using Cons.prems(2) by (simp add: select_valeur_def)
    have n: "rid r \<notin> rid ` set rs" using Cons.prems(1) by simp
    have "list_all (\<lambda>x. rid x \<noteq> i) rs"
      unfolding list_all_iff
    proof
      fix x assume "x \<in> set rs"
      then have "rid x \<in> rid ` set rs" by (rule imageI)
      with n True show "rid x \<noteq> i" by (auto simp: has_id_def)
    qed
    then have t: "apply_write (Update (has_id i) (set_valeur v0)) rs = rs"
        "apply_write (Update (has_id i) (set_valeur v)) rs = rs"
      by (simp_all only: update_absent)
    have "apply_write (Update (has_id i) (set_valeur v0))
           (apply_write (Update (has_id i) (set_valeur v)) (r # rs))
          = set_valeur v0 (set_valeur v r)
            # apply_write (Update (has_id i) (set_valeur v0))
                (apply_write (Update (has_id i) (set_valeur v)) rs)"
      using True by (simp add: has_id_set_valeur)
    then show ?thesis using t set_valeur_back [OF v] by simp
  next
    case False
    then have "select_valeur i rs = Some v0" using Cons.prems(2) by (simp add: select_valeur_def)
    then have "apply_write (Update (has_id i) (set_valeur v0))
           (apply_write (Update (has_id i) (set_valeur v)) rs) = rs"
      using Cons.IH Cons.prems(1) by simp
    then show ?thesis using False by simp
  qed
qed

lemma select_valeur_distinct:
  "distinct (map rid rs) \<Longrightarrow> r \<in> set rs \<Longrightarrow> select_valeur (rid r) rs = Some (valeur_fonciere r)"
proof (induction rs)
  case Nil
  then show ?case by simp
next
  case (Cons x rs)
  show ?case
  proof (cases "r = x")
    case True
    then show ?thesis by (simp add: select_valeur_def has_id_def)
  next
    case False
    then have m: "r \<in> set rs" using Cons.prems(2) by simp
    then have "rid r \<in> rid ` set rs" by (rule imageI)
    then have "rid x \<noteq> rid r" using Cons.prems(1) by auto
    then have "select_valeur (rid r) (x # rs) = select_valeur (rid r) rs"
      by (simp add: select_valeur_def has_id_def)
    then show ?thesis using Cons.IH Cons.prems(1) m by simp
  qed
qed

lemma demo_nrr_restores:
  assumes f: "faults w = (\<lambda>_. None)" and d: "distinct (map rid (store w))"
    and nn: "pick < length (store w) \<Longrightarrow> valeur_fonciere (store w ! pick) \<noteq> None"
  shows "\<exists>res w'. demo_non_repeatable_read pick w = Some (res, w') \<and> store w' = store w"
proof (cases "pick < length (store w) \<and> rid (store w ! pick) \<noteq> 0")
  case False
  then have "demo_non_repeatable_read pick w =
      Some (Inr \<lparr>results = Map.empty, sessions = []\<rparr>, w\<lparr>tick := tick w + 1\<rparr>)"
    using f
    by (auto simp: demo_non_repeatable_read_def get_random_mutation_id_def cur_select_eq
          begin_txn_def visible_def get_connection_def Let_def)
  then show ?thesis by simp
next
  case True
  let ?i = "rid (store w ! pick)"
  let ?w2 = "w\<lparr>tick := tick w + 2\<rparr>"
  have m: "store w ! pick \<in> set (store w)" using True by simp
  obtain V where V: "valeur_fonciere (store w ! pick) = Some V" using nn True by auto
  have v: "select_valeur ?i (store w) = Some (Some V)"
    using select_valeur_distinct [OF d m] V by simp
  obtain nom where n: "(case filter (has_id ?i) (store w) of [] \<Rightarrow> None
           | r # x \<Rightarrow> Some (rid r, valeur_fonciere r, nom_commune r)) = Some (?i, Some V, nom)"
    using details_from_valeur [OF v] by auto
  have e: "demo_non_repeatable_read pick w =
      (case nrr_threads ?i (Some V) ?w2 of
         None \<Rightarrow> None
       | Some (rep, w3) \<Rightarrow> Some (Inr rep, restore_valeur ?i (Some V) w3))"
    using f True n
    by (simp add: demo_non_repeatable_read_def get_random_mutation_id_def
          get_mutation_details_def cur_select_eq begin_txn_def visible_def get_connection_def
          Let_def)
  have f2: "faults ?w2 = (\<lambda>_. None)" using f by simp
  have v2: "select_valeur ?i (store ?w2) = Some (Some V)" using v by simp
  note t = nrr_threads_fault_free [OF f2 v2]
  let ?w3 = "?w2\<lparr>tick := tick ?w2 + 3,
           store := apply_write (Update (has_id ?i) (set_valeur (Some (V + 10000))))
                      (store ?w2)\<rparr>"
  have f3: "faults ?w3 = (\<lambda>_. None)" using f by simp
  have "store (restore_valeur ?i (Some V) ?w3) =
      apply_write (Update (has_id ?i) (set_valeur (Some V)))
        (apply_write (Update (has_id ?i) (set_valeur (Some (V + 10000)))) (store w))"
    unfolding restore_valeur_fault_free [OF f3] by (simp del: apply_write.simps)
  also have "\<dots> = store w"
    using d v by (simp only: restore_roundtrip)
  finally have "store (restore_valeur ?i (Some V) ?w3) = store w" .
  then show ?thesis unfolding e t by simp
qed

lemma restore_name_fault_free:
  "faults w = (\<lambda>_. None) \<Longrightarrow>
   restore_name n w =
     w\<lparr>tick := tick w + 1,
       store := apply_write (Update (in_commune test_code_commune) (rename n)) (store w)\<rparr>"
  by (simp add: restore_name_def cur_write_def Let_def begin_txn_def get_connection_def
        concurrent_update_def del: apply_write.simps)

lemma rename_back:
  "list_all (\<lambda>r. in_commune c r \<longrightarrow> nom_commune r = original) rs \<Longrightarrow>
   apply_write (Update (in_commune c) (rename original))
     (apply_write (Update (named c original) (rename new)) rs) = rs"
  by (induction rs) (simp_all add: in_commune_def named_def rename_def)

lemma first_nom_uniform:
  "list_all (\<lambda>r. in_commune c r \<longrightarrow> nom_commune r = original) rs \<Longrightarrow>
   first_nom c rs = Some n \<Longrightarrow> n = original"
  by (induction rs) (auto simp: first_nom_def split: if_splits)

lemma demo_serialization_restores:
  assumes f: "faults w = (\<lambda>_. None)"
    and u: "list_all (\<lambda>r. in_commune test_code_commune r \<longrightarrow> nom_commune r = original) (store w)"
  shows "\<exists>rep w'. demo_serialization_failure d1 d2 r1 r2 w = Some (rep, w') \<and> store w' = store w"
proof (cases "first_nom test_code_commune (store w)")
  case None
  then have "demo_serialization_failure d1 d2 r1 r2 w =
      Some (\<lparr>results = Map.empty, sessions = []\<rparr>, w\<lparr>tick := tick w + 1\<rparr>)"
    using f
    by (simp add: demo_serialization_failure_def cur_select_eq begin_txn_def visible_def
          get_connection_def)
  then show ?thesis by simp
next
  case (Some n)
  then have n: "first_nom test_code_commune (store w) = Some original"
    using first_nom_uniform [OF u] by simp
  let ?w1 = "w\<lparr>tick := tick w + 1\<rparr>"
  let ?new1 = "original @ ''_TX1_'' @ string_of_nat r1"
  let ?new2 = "original @ ''_TX2_'' @ string_of_nat r2"
  let ?new = "if d1 \<le> 300 + d2 then ?new1 else ?new2"
  let ?w2 = "?w1\<lparr>tick := tick ?w1 + 4,
                  store := apply_write (Update (named test_code_commune original) (rename ?new))
                             (store ?w1)\<rparr>"
  have f1: "faults ?w1 = (\<lambda>_. None)" using f by simp
  have n1: "first_nom test_code_commune (store ?w1) = Some original" using n by simp
  have d1: "?new1 \<noteq> original" by simp
  have d2: "?new2 \<noteq> original" by simp
  obtain rep where r: "serialization_threads d1 d2 original ?new1 ?new2 ?w1 = Some (rep, ?w2)"
    using serialization_threads_fault_free [OF f1 n1 d1 d2, of d1 d2] by blast
  have e: "demo_serialization_failure d1 d2 r1 r2 w =
      (case serialization_threads d1 d2 original ?new1 ?new2 ?w1 of
         None \<Rightarrow> None
       | Some (rep, w2) \<Rightarrow> Some (rep, restore_name original w2))"
    using f n
    by (simp add: demo_serialization_failure_def cur_select_eq begin_txn_def visible_def
          get_connection_def)
  have f2: "faults ?w2 = (\<lambda>_. None)" using f by simp
  have "store (restore_name original ?w2) =
      apply_write (Update (in_commune test_code_commune) (rename original))
        (apply_write (Update (named test_code_commune original) (rename ?new)) (store w))"
    unfolding restore_name_fault_free [OF f2] by (simp del: apply_write.simps)
  also have "\<dots> = store w" using u by (rule rename_back)
  finally have "store (restore_name original ?w2) = store w" .
  then show ?thesis unfolding e r by simp
qed

lemma restore_statement_fails:
  assumes "faults w (tick w) \<noteq> None"
  shows "restore_valeur i v w = w\<lparr>tick := tick w + 1\<rparr>"
    and "cleanup_phantom i w = w\<lparr>tick := tick w + 1\<rparr>"
    and "restore_name n w = w\<lparr>tick := tick w + 1\<rparr>"
  using assms
  by (auto simp: restore_valeur_def cleanup_phantom_def restore_name_def cur_write_def Let_def
        simp del: apply_write.simps)

text \<open>
  Claim C4, as stated, at two concrete runs. In the serialization failure scenario on a
  table where one row of commune 01344 is named \<open>St Denis\<close> and the set-up reads
  \<open>Saint-Denis\<close>, the restoring statement gives every row of the commune the name the
  set-up read: the row named \<open>St Denis\<close> is not as it was before the scenario. In the
  non-repeatable read scenario with a store that fails the restoring statement, the
  error is printed, the record keeps the writer's value, and the scenario returns the
  same report as the run in which the restoration succeeded: nothing compares the table
  with the recorded baseline.
\<close>

theorem restoration_counterexample:
  "map nom_commune (store scenario_world) = [''Bourg'', ''Bourg'', ''Saint-Denis'', ''St Denis'']
   \<and> map_option (map nom_commune \<circ> store \<circ> snd)
        (demo_serialization_failure 400 400 7 8 scenario_world)
      = Some [''Bourg'', ''Bourg'', ''Saint-Denis'', ''Saint-Denis'']
   \<and> map valeur_fonciere (store restore_fails_world)
      = [Some 100, Some 10000000, Some 5, Some 6]
   \<and> map_option (map valeur_fonciere \<circ> store \<circ> snd)
        (demo_non_repeatable_read 0 restore_fails_world)
      = Some [Some 10100, Some 10000000, Some 5, Some 6]
   \<and> map_option fst (demo_non_repeatable_read 0 restore_fails_world)
      = map_option fst (demo_non_repeatable_read 0 scenario_world)
   \<and> demo_non_repeatable_read 0 scenario_world \<noteq> None"
proof -
  let ?w1 = "scenario_world\<lparr>tick := tick scenario_world + 1\<rparr>"
  let ?new1 = "''Saint-Denis'' @ ''_TX1_'' @ string_of_nat 7"
  let ?new2 = "''Saint-Denis'' @ ''_TX2_'' @ string_of_nat 8"
  let ?w2 = "?w1\<lparr>tick := tick ?w1 + 4,
                  store := apply_write (Update (named test_code_commune ''Saint-Denis'')
                             (rename (if (400::nat) \<le> 300 + 400 then ?new1 else ?new2)))
                             (store ?w1)\<rparr>"
  have f: "faults ?w1 = (\<lambda>_. None)" by (simp add: scenario_world_def no_faults_def)
  have n: "first_nom test_code_commune (store ?w1) = Some ''Saint-Denis''"
    by (simp add: scenario_world_def first_nom_def in_commune_def example_row_def
          test_code_commune_def)
  have s: "cur_select (first_nom test_code_commune) (get_connection True None) scenario_world
      = (Inr (Some ''Saint-Denis''), get_connection True None, ?w1)"
    using n by (simp add: cur_select_eq begin_txn_def visible_def get_connection_def
          scenario_world_def no_faults_def)
  have d1: "?new1 \<noteq> ''Saint-Denis''" by simp
  have d2: "?new2 \<noteq> ''Saint-Denis''" by simp
  obtain rep where r: "serialization_threads 400 400 ''Saint-Denis'' ?new1 ?new2 ?w1
      = Some (rep, ?w2)"
    using serialization_threads_fault_free [OF f n d1 d2, of 400 400] by blast
  have e: "demo_serialization_failure 400 400 7 8 scenario_world =
      (case serialization_threads 400 400 ''Saint-Denis'' ?new1 ?new2 ?w1 of
         None \<Rightarrow> None
       | Some (rep, w2) \<Rightarrow> Some (rep, restore_name ''Saint-Denis'' w2))"
    by (simp only: demo_serialization_failure_def s prod.case sum.case option.case)
  have f2: "faults ?w2 = (\<lambda>_. None)" by (simp add: scenario_world_def no_faults_def)
  have "map nom_commune (store (restore_name ''Saint-Denis'' ?w2))
      = [''Bourg'', ''Bourg'', ''Saint-Denis'', ''Saint-Denis'']"
    unfolding restore_name_fault_free [OF f2]
    by (simp add: scenario_world_def example_row_def named_def rename_def in_commune_def
          test_code_commune_def)
  then have a: "map_option (map nom_commune \<circ> store \<circ> snd)
        (demo_serialization_failure 400 400 7 8 scenario_world)
      = Some [''Bourg'', ''Bourg'', ''Saint-Denis'', ''Saint-Denis'']"
    unfolding e r by simp
  have b: "map nom_commune (store scenario_world)
      = [''Bourg'', ''Bourg'', ''Saint-Denis'', ''St Denis'']"
    by (simp add: scenario_world_def example_row_def)
  have c: "map valeur_fonciere (store restore_fails_world)
      = [Some 100, Some 10000000, Some 5, Some 6]"
    by (simp add: restore_fails_world_def scenario_world_def example_row_def)
  let ?rep = "\<lparr>results = [''tx1_read1'' \<mapsto> PyNum 100, ''tx2_wrote'' \<mapsto> PyNum 10100,
                           ''tx1_read2'' \<mapsto> PyNum 10100],
               sessions = [close (get_connection False (Some ReadCommitted)),
                           close (get_connection False (Some ReadCommitted))]\<rparr>"
  note run = demo_non_repeatable_read_def get_random_mutation_id_def
          get_mutation_details_def nrr_threads_def tx1_reader_first_def tx1_reader_second_def
          tx2_writer_first_def tx2_writer_second_def with_conn_def cur_select_eq cur_write_def
          commit_def barrier_wait_def Let_def begin_txn_def visible_def apply_all_def
          concurrent_update_def get_connection_def close_def rollback_def num_or_none_def
          restore_valeur_def scenario_world_def no_faults_def example_row_def has_id_def
          select_valeur_def set_valeur_def
  have g: "map_option fst (demo_non_repeatable_read 0 scenario_world) = Some (Inr ?rep)"
    by (simp add: run)
  have h: "map_option fst (demo_non_repeatable_read 0 restore_fails_world) = Some (Inr ?rep)"
    by (simp add: run restore_fails_world_def)
  have k: "map_option (map valeur_fonciere \<circ> store \<circ> snd)
        (demo_non_repeatable_read 0 restore_fails_world)
      = Some [Some 10100, Some 10000000, Some 5, Some 6]"
    by (simp add: run restore_fails_world_def)
  have l: "map_option fst (demo_non_repeatable_read 0 restore_fails_world)
      = map_option fst (demo_non_repeatable_read 0 scenario_world)"
    unfolding g h by (rule refl)
  have m: "demo_non_repeatable_read 0 scenario_world \<noteq> None" using g by auto
  show ?thesis using a b c k l m by (intro conjI)
qed

text \<open>
  Claim C4, amended. With a store that raises no error, every anomaly scenario leaves
  the committed table exactly as it found it, the restoring statement running on a
  session of its own in autocommit mode: the non-repeatable read scenario when ids are
  unique and the picked record's value is not NULL; the phantom read scenario when the
  id sequence is positive and ahead of every id of the table; the serialization failure
  scenario when all rows of commune 01344 carry the same name. The restoration is not
  verified: when the store fails the restoring statement the harness goes on with the
  table as the scenario left it.
\<close>

theorem scenarios_restore_table:
  assumes "faults w = (\<lambda>_. None)"
  shows "(distinct (map rid (store w))
          \<and> (pick < length (store w) \<longrightarrow> valeur_fonciere (store w ! pick) \<noteq> None)
          \<longrightarrow> (\<exists>res w'. demo_non_repeatable_read pick w = Some (res, w') \<and> store w' = store w))
     \<and> (next_id w \<noteq> 0 \<and> list_all (\<lambda>r. rid r < next_id w) (store w)
          \<longrightarrow> (\<exists>reps w'. demo_phantom_read rnd_rc rnd_rr w = Some (reps, w')
                  \<and> store w' = store w))
     \<and> (list_all (\<lambda>r. in_commune test_code_commune r \<longrightarrow> nom_commune r = original) (store w)
          \<longrightarrow> (\<exists>rep w'. demo_serialization_failure da db ra rb w = Some (rep, w')
                  \<and> store w' = store w))
     \<and> (faults v (tick v) \<noteq> None
          \<longrightarrow> restore_valeur i x v = v\<lparr>tick := tick v + 1\<rparr>
              \<and> cleanup_phantom i v = v\<lparr>tick := tick v + 1\<rparr>
              \<and> restore_name n v = v\<lparr>tick := tick v + 1\<rparr>)"
proof (intro conjI)
  show "distinct (map rid (store w))
          \<and> (pick < length (store w) \<longrightarrow> valeur_fonciere (store w ! pick) \<noteq> None)
          \<longrightarrow> (\<exists>res w'. demo_non_repeatable_read pick w = Some (res, w') \<and> store w' = store w)"
    using demo_nrr_restores [OF assms, of pick] by blast
  show "next_id w \<noteq> 0 \<and> list_all (\<lambda>r. rid r < next_id w) (store w)
          \<longrightarrow> (\<exists>reps w'. demo_phantom_read rnd_rc rnd_rr w = Some (reps, w')
                  \<and> store w' = store w)"
    using demo_phantom_restores [OF assms, of rnd_rc rnd_rr] by blast
  show "list_all (\<lambda>r. in_commune test_code_commune r \<longrightarrow> nom_commune r = original) (store w)
          \<longrightarrow> (\<exists>rep w'. demo_serialization_failure da db ra rb w = Some (rep, w')
                  \<and> store w' = store w)"
    using demo_serialization_restores [OF assms, of original da db ra rb] by blast
  show "faults v (tick v) \<noteq> None
          \<longrightarrow> restore_valeur i x v = v\<lparr>tick := tick v + 1\<rparr>
              \<and> cleanup_phantom i v = v\<lparr>tick := tick v + 1\<rparr>
              \<and> restore_name n v = v\<lparr>tick := tick v + 1\<rparr>"
    using restore_statement_fails [of v] by blast
qed

theorem scenarios_restore_table_witness:
  "(\<exists>res w'. demo_non_repeatable_read 0 uniform_world = Some (res, w')
       \<and> store w' = store uniform_world)
   \<and> (\<exists>reps w'. demo_phantom_read 12345 23456 uniform_world = Some (reps, w')
       \<and> store w' = store uniform_world)
   \<and> (\<exists>rep w'. demo_serialization_failure 400 400 7 8 uniform_world = Some (rep, w')
       \<and> store w' = store uniform_world)
   \<and> restore_valeur 1 (Some 100) (failing_world OtherStoreError)
       = (failing_world OtherStoreError)\<lparr>tick := 1\<rparr>
   \<and> cleanup_phantom 5 (failing_world OtherStoreError)
       = (failing_world OtherStoreError)\<lparr>tick := 1\<rparr>
   \<and> restore_name ''Saint-Denis'' (failing_world OtherStoreError)
       = (failing_world OtherStoreError)\<lparr>tick := 1\<rparr>"
proof -
  have f: "faults uniform_world = (\<lambda>_. None)"
    by (simp add: uniform_world_def no_faults_def)
  have a: "distinct (map rid (store uniform_world))
      \<and> (0 < length (store uniform_world)
           \<longrightarrow> valeur_fonciere (store uniform_world ! 0) \<noteq> None)"
    by (simp add: uniform_world_def example_row_def)
  have b: "next_id uniform_world \<noteq> 0
      \<and> list_all (\<lambda>r. rid r < next_id uniform_world) (store uniform_world)"
    by (simp add: uniform_world_def example_row_def)
  have c: "list_all (\<lambda>r. in_commune test_code_commune r \<longrightarrow> nom_commune r = ''Saint-Denis'')
             (store uniform_world)"
    by (simp add: uniform_world_def example_row_def in_commune_def test_code_commune_def)
  have d: "faults (failing_world OtherStoreError) (tick (failing_world OtherStoreError)) \<noteq> None"
      "tick (failing_world OtherStoreError) = 0"
    by (simp_all add: failing_world_def scenario_world_def)
  from scenarios_restore_table [OF f, where pick = 0 and rnd_rc = 12345 and rnd_rr = 23456
      and original = "''Saint-Denis''" and da = 400 and db = 400 and ra = 7 and rb = 8
      and v = "failing_world OtherStoreError" and i = 1 and x = "Some 100"
      and n = "''Saint-Denis''"]
    a b c d
  have "(\<exists>res w'. demo_non_repeatable_read 0 uniform_world = Some (res, w')
       \<and> store w' = store uniform_world)"
    "(\<exists>reps w'. demo_phantom_read 12345 23456 uniform_world = Some (reps, w')
       \<and> store w' = store uniform_world)"
    "(\<exists>rep w'. demo_serialization_failure 400 400 7 8 uniform_world = Some (rep, w')
       \<and> store w' = store uniform_world)"
    "restore_valeur 1 (Some 100) (failing_world OtherStoreError)
       = (failing_world OtherStoreError)\<lparr>tick := 1\<rparr>"
    "restore_name ''Saint-Denis'' (failing_world OtherStoreError)
       = (failing_world OtherStoreError)\<lparr>tick := 1\<rparr>"
    by simp_all
  moreover have "cleanup_phantom 5 (failing_world OtherStoreError)
       = (failing_world OtherStoreError)\<lparr>tick := 1\<rparr>"
    using scenarios_restore_table [OF f, where v = "failing_world OtherStoreError" and i = 5] d
    by simp
  ultimately show ?thesis by (intro conjI)
qed

end
